theory Spec2Isabelle
  imports Main
begin

section \<open>Status Transition Engine (Tasks.js, getStatusActions)\<close>

text \<open>
  Statuses travel as the lowercase tokens of the wire format, so they stay strings here.
  \<open>getStatusActions\<close> builds one button per available action; a button is kept as its
  React key, the status its \<open>onClick\<close> hands to \<open>onUpdate\<close>, and its \<open>disabled\<close> prop.
\<close>

record action =
  a_key :: string
  a_target :: string
  a_disabled :: bool

definition getStatusActions :: "string \<Rightarrow> bool \<Rightarrow> action list" where
  "getStatusActions currentStatus isLoading =
     (let actions0 = [];
          actions1 = (if currentStatus \<noteq> ''completed''
                      then actions0 @ [\<lparr>a_key = ''complete'', a_target = ''completed'', a_disabled = isLoading\<rparr>]
                      else actions0);
          actions2 = (if currentStatus = ''pending''
                      then actions1 @ [\<lparr>a_key = ''start'', a_target = ''in_progress'', a_disabled = isLoading\<rparr>]
                      else actions1);
          actions3 = (if currentStatus = ''in_progress''
                      then actions2 @ [\<lparr>a_key = ''pause'', a_target = ''pending'', a_disabled = isLoading\<rparr>]
                      else actions2)
      in actions3)"


section \<open>JavaScript objects used as dictionaries\<close>

text \<open>
  The page keeps its caches in plain objects keyed by id. An object is kept as its list of
  properties in creation order. Property keys are strings (an id used as a key is converted
  to one), so ids are strings throughout. \<open>{...prev, [k]: v}\<close> and \<open>o[k] = v\<close> replace the
  value of an existing key in place and append a new key. \<open>Object.keys\<close> lists the keys that
  are array indices first, in ascending numeric order, then the others in creation order.

  Reading \<open>o[k]\<close> finds an own property, or else a property the object inherits, or else
  \<open>undefined\<close>. An object written \<open>{}\<close> or \<open>{...prev, [k]: v}\<close> inherits from
  \<open>Object.prototype\<close>, whose properties are functions, and the prototype itself under
  \<open>__proto__\<close>: all truthy, none an array.
\<close>

type_synonym 'v obj = "(string \<times> 'v) list"

definition obj_get :: "'v obj \<Rightarrow> string \<Rightarrow> 'v option" where
  "obj_get ob k = map_of ob k"

fun obj_set :: "'v obj \<Rightarrow> string \<Rightarrow> 'v \<Rightarrow> 'v obj" where
  "obj_set [] k v = [(k, v)]"
| "obj_set ((k', v') # kvs) k v =
     (if k' = k then (k, v) # kvs else (k', v') # obj_set kvs k v)"

datatype 'v looked = Own 'v | Inherited | Undefined

definition object_prototype_keys :: "string list" where
  "object_prototype_keys =
     [''constructor'', ''__defineGetter__'', ''__defineSetter__'', ''hasOwnProperty'',
      ''__lookupGetter__'', ''__lookupSetter__'', ''isPrototypeOf'', ''propertyIsEnumerable'',
      ''toString'', ''valueOf'', ''__proto__'', ''toLocaleString'']"

definition obj_lookup :: "'v obj \<Rightarrow> string \<Rightarrow> 'v looked" where
  "obj_lookup ob k =
     (case map_of ob k of
        Some v \<Rightarrow> Own v
      | None \<Rightarrow> if k \<in> set object_prototype_keys then Inherited else Undefined)"

definition is_digit :: "char \<Rightarrow> bool" where
  "is_digit c = (48 \<le> (of_char c :: nat) \<and> (of_char c :: nat) \<le> 57)"

definition digit_val :: "char \<Rightarrow> nat" where
  "digit_val c = of_char c - 48"

definition dec_val :: "string \<Rightarrow> nat" where
  "dec_val s = foldl (\<lambda>a c. 10 * a + digit_val c) 0 s"

definition is_array_index :: "string \<Rightarrow> bool" where
  "is_array_index s =
     (s \<noteq> [] \<and> list_all is_digit s \<and> (hd s \<noteq> CHR ''0'' \<or> length s = 1)
      \<and> dec_val s < 2 ^ 32 - 1)"

definition obj_keys :: "'v obj \<Rightarrow> string list" where
  "obj_keys ob =
     sort_key dec_val (filter is_array_index (map fst ob))
     @ filter (\<lambda>k. \<not> is_array_index k) (map fst ob)"

definition obj_values :: "'v obj \<Rightarrow> 'v list" where
  "obj_values ob = concat (map (\<lambda>k. case obj_get ob k of Some v \<Rightarrow> [v] | None \<Rightarrow> []) (obj_keys ob))"

section \<open>Data model: what the backend returns\<close>

record goal =
  g_id :: string
  g_goal_name :: string
  g_description :: string
  g_weeks :: int

record task =
  t_id :: string
  t_title :: string
  t_week_number :: int
  t_scheduled_date :: string
  t_status :: string

record subtask =
  st_id :: string
  st_description :: string
  st_scheduled_date :: string
  st_status :: string

text \<open>
  \<open>tasksData\<close>, and so the \<open>tasks\<close> state, is filled by assignment, \<open>tasksData[goal.id] =
  ...\<close>. Assigning to \<open>__proto__\<close> runs the setter of \<open>Object.prototype\<close>: it makes the
  assigned array the prototype of the object and adds no own property; every other key
  becomes an own property. So this dictionary is its own properties and, when \<open>__proto__\<close>
  was assigned, the array that is now its prototype. Reading \<open>__proto__\<close> then gives that
  array; any other key that is not an own property is looked up in the array (its indices
  and \<open>length\<close>), then in \<open>Array.prototype\<close>, then in \<open>Object.prototype\<close>. What is found
  there is a task, a number or a function: truthy unless it is the length 0, never an array.
\<close>

record task_dict =
  own :: "task list obj"
  proto :: "task list option"

definition empty_dict :: task_dict where
  "empty_dict = \<lparr>own = [], proto = None\<rparr>"

definition array_prototype_keys :: "string list" where
  "array_prototype_keys =
     [''at'', ''concat'', ''copyWithin'', ''entries'', ''every'', ''fill'', ''filter'', ''find'',
      ''findIndex'', ''findLast'', ''findLastIndex'', ''flat'', ''flatMap'', ''forEach'',
      ''includes'', ''indexOf'', ''join'', ''keys'', ''lastIndexOf'', ''map'', ''pop'', ''push'',
      ''reduce'', ''reduceRight'', ''reverse'', ''shift'', ''slice'', ''some'', ''sort'', ''splice'',
      ''toReversed'', ''toSorted'', ''toSpliced'', ''unshift'', ''values'', ''with'']"

definition dict_assign :: "task_dict \<Rightarrow> string \<Rightarrow> task list \<Rightarrow> task_dict" where
  "dict_assign d k v =
     (if k = ''__proto__'' then d\<lparr>proto := Some v\<rparr> else d\<lparr>own := obj_set (own d) k v\<rparr>)"

definition dict_lookup :: "task_dict \<Rightarrow> string \<Rightarrow> task list looked" where
  "dict_lookup d k =
     (case map_of (own d) k of
        Some v \<Rightarrow> Own v
      | None \<Rightarrow>
          (case proto d of
             None \<Rightarrow> if k \<in> set object_prototype_keys then Inherited else Undefined
           | Some a \<Rightarrow>
               if k = ''__proto__'' then Own a
               else if is_array_index k \<and> dec_val k < length a then Inherited
               else if k = ''length'' then (if a = [] then Undefined else Inherited)
               else if k \<in> set array_prototype_keys \<or> k \<in> set object_prototype_keys
                    then Inherited
               else Undefined))"

text \<open>The array found under a key, put back after it was changed in place.\<close>

definition dict_store :: "task_dict \<Rightarrow> string \<Rightarrow> task list \<Rightarrow> task_dict" where
  "dict_store d k v =
     (case map_of (own d) k of
        Some _ \<Rightarrow> d\<lparr>own := obj_set (own d) k v\<rparr>
      | None \<Rightarrow> d\<lparr>proto := Some v\<rparr>)"

section \<open>Requests, responses and suspended handlers\<close>

text \<open>
  Every handler of the pages is an \<open>async\<close> function: it runs to its next \<open>await\<close>,
  leaves a request with the backend and is resumed when the response arrives. A world is
  the component state together with the requests still outstanding (each with the point
  at which its handler is suspended) and the trace of what the handlers have done that
  is visible outside the component state: requests issued, flags written, alerts shown,
  console messages.
\<close>

datatype request =
    GET_goals
  | GET_goal_tasks string
  | GET_task_subtasks string
  | PUT_task string string
  | PUT_subtask string string
  | POST_goal string string int
  | DELETE_goal string

datatype response =
    Failure
  | Ack
  | Goals_data "goal list"
  | Tasks_data "task list"
  | Subtasks_data "subtask list"

datatype effect =
    Issued request
  | Set_flag string bool
  | Set_formLoading bool
  | Alert string
  | Console_error string

datatype cont =
    In_fetchTasksData_goals
  | In_fetchTasksData_tasks "goal list" task_dict
  | In_toggleTaskExpansion string "string set"
  | In_updateTaskStatus string
  | In_updateSubtaskStatus_put string "subtask list obj"
  | In_updateSubtaskStatus_get string string
  | In_fetchGoals
  | In_handleCreateGoal
  | In_handleDeleteGoal

record 'p world =
  page :: 'p
  pending :: "(request \<times> cont) list"
  trace :: "effect list"

definition issue :: "request \<Rightarrow> cont \<Rightarrow> 'p world \<Rightarrow> 'p world" where
  "issue req k w = w\<lparr>pending := pending w @ [(req, k)], trace := trace w @ [Issued req]\<rparr>"

definition alert :: "string \<Rightarrow> 'p world \<Rightarrow> 'p world" where
  "alert msg w = w\<lparr>trace := trace w @ [Alert msg]\<rparr>"

definition console_error :: "string \<Rightarrow> 'p world \<Rightarrow> 'p world" where
  "console_error msg w = w\<lparr>trace := trace w @ [Console_error msg]\<rparr>"

definition requests :: "'p world \<Rightarrow> request list" where
  "requests w = concat (map (\<lambda>e. case e of Issued r \<Rightarrow> [r] | _ \<Rightarrow> []) (trace w))"

definition alerts :: "'p world \<Rightarrow> string list" where
  "alerts w = concat (map (\<lambda>e. case e of Alert m \<Rightarrow> [m] | _ \<Rightarrow> []) (trace w))"

text \<open>Which responses a request can get: a failure, or the payload of its endpoint.\<close>

fun accepts :: "request \<Rightarrow> response \<Rightarrow> bool" where
  "accepts _ Failure = True"
| "accepts GET_goals (Goals_data _) = True"
| "accepts (GET_goal_tasks _) (Tasks_data _) = True"
| "accepts (GET_task_subtasks _) (Subtasks_data _) = True"
| "accepts (PUT_task _ _) Ack = True"
| "accepts (PUT_subtask _ _) Ack = True"
| "accepts (POST_goal _ _ _) Ack = True"
| "accepts (DELETE_goal _) Ack = True"
| "accepts _ _ = False"

section \<open>The Tasks page (Tasks.js)\<close>

text \<open>
  The state of the component, and \<open>unmounted\<close>: whether a render has thrown. The
  application has no error boundary, so React then removes the page for good: nothing is on
  screen and nothing is rendered again. Handlers that are suspended still run to their end
  when their responses arrive; the setters they call are applied to the state here, which
  nobody sees any more.
\<close>

record tasks_page =
  goals :: "goal list"
  tasks :: task_dict
  subtasks :: "subtask list obj"
  loading :: bool
  expandedTasks :: "string set"
  loadingStates :: "bool obj"
  unmounted :: bool

type_synonym tworld = "tasks_page world"

definition task_key :: "string \<Rightarrow> string" where
  "task_key taskId = ''task_'' @ taskId"

definition subtask_key :: "string \<Rightarrow> string" where
  "subtask_key subtaskId = ''subtask_'' @ subtaskId"

definition setLoadingStates :: "string \<Rightarrow> bool \<Rightarrow> tworld \<Rightarrow> tworld" where
  "setLoadingStates k b w =
     w\<lparr>page := (page w)\<lparr>loadingStates := obj_set (loadingStates (page w)) k b\<rparr>,
       trace := trace w @ [Set_flag k b]\<rparr>"

definition setSubtasks :: "string \<Rightarrow> subtask list \<Rightarrow> tworld \<Rightarrow> tworld" where
  "setSubtasks taskId d w =
     w\<lparr>page := (page w)\<lparr>subtasks := obj_set (subtasks (page w)) taskId d\<rparr>\<rparr>"

definition setExpandedTasks :: "string set \<Rightarrow> tworld \<Rightarrow> tworld" where
  "setExpandedTasks s w = w\<lparr>page := (page w)\<lparr>expandedTasks := s\<rparr>\<rparr>"

definition setGoals :: "goal list \<Rightarrow> tworld \<Rightarrow> tworld" where
  "setGoals gs w = w\<lparr>page := (page w)\<lparr>goals := gs\<rparr>\<rparr>"

definition setTasks :: "task_dict \<Rightarrow> tworld \<Rightarrow> tworld" where
  "setTasks ts w = w\<lparr>page := (page w)\<lparr>tasks := ts\<rparr>\<rparr>"

definition setLoading :: "bool \<Rightarrow> tworld \<Rightarrow> tworld" where
  "setLoading b w = w\<lparr>page := (page w)\<lparr>loading := b\<rparr>\<rparr>"

subsection \<open>fetchTasksData\<close>

definition fetchTasksData :: "tworld \<Rightarrow> tworld" where
  "fetchTasksData w = issue GET_goals In_fetchTasksData_goals w"

text \<open>The \<open>for ... of goalsData\<close> loop, entered with the goals still to fetch.\<close>

fun fetchTasksData_loop :: "goal list \<Rightarrow> task_dict \<Rightarrow> tworld \<Rightarrow> tworld" where
  "fetchTasksData_loop [] tasksData w = setLoading False (setTasks tasksData w)"
| "fetchTasksData_loop (g # rest) tasksData w =
     issue (GET_goal_tasks (g_id g)) (In_fetchTasksData_tasks (g # rest) tasksData) w"

subsection \<open>fetchSubtasks and toggleTaskExpansion\<close>

text \<open>
  \<open>fetchSubtasks\<close> up to its \<open>await\<close>: \<open>if (subtasks[taskId]) return\<close> reads the cache of
  the render the handler closes over. An entry (an array, even an empty one) is truthy, and
  so is what the object inherits under the task id; only \<open>undefined\<close> leads to a request.
\<close>

definition fetchSubtasks_start :: "tasks_page \<Rightarrow> string \<Rightarrow> request option" where
  "fetchSubtasks_start p taskId =
     (case obj_lookup (subtasks p) taskId of
        Own _ \<Rightarrow> None
      | Inherited \<Rightarrow> None
      | Undefined \<Rightarrow> Some (GET_task_subtasks taskId))"

fun fetchSubtasks_resume :: "string \<Rightarrow> response \<Rightarrow> tworld \<Rightarrow> tworld" where
  "fetchSubtasks_resume taskId (Subtasks_data d) w = setSubtasks taskId d w"
| "fetchSubtasks_resume taskId Failure w = console_error ''Error fetching subtasks:'' w"
| "fetchSubtasks_resume taskId _ w = w"

definition toggleTaskExpansion :: "tworld \<Rightarrow> string \<Rightarrow> tworld" where
  "toggleTaskExpansion w taskId =
     (let newExpanded = expandedTasks (page w) in
      if taskId \<in> newExpanded then setExpandedTasks (newExpanded - {taskId}) w
      else (let newExpanded = insert taskId newExpanded in
            case fetchSubtasks_start (page w) taskId of
              None \<Rightarrow> setExpandedTasks newExpanded w
            | Some req \<Rightarrow> issue req (In_toggleTaskExpansion taskId newExpanded) w))"

subsection \<open>updateTaskStatus and updateSubtaskStatus\<close>

definition updateTaskStatus :: "tworld \<Rightarrow> string \<Rightarrow> string \<Rightarrow> tworld" where
  "updateTaskStatus w taskId newStatus =
     issue (PUT_task taskId newStatus) (In_updateTaskStatus taskId)
       (setLoadingStates (task_key taskId) True w)"

definition updateSubtaskStatus :: "tworld \<Rightarrow> string \<Rightarrow> string \<Rightarrow> tworld" where
  "updateSubtaskStatus w subtaskId newStatus =
     issue (PUT_subtask subtaskId newStatus)
       (In_updateSubtaskStatus_put subtaskId (subtasks (page w)))
       (setLoadingStates (subtask_key subtaskId) True w)"

text \<open>
  \<open>Object.keys(subtasks).find(taskId => subtasks[taskId]?.some(st => st.id === subtaskId))\<close>
  over the cache of the render the handler closes over.
\<close>

definition find_parent :: "subtask list obj \<Rightarrow> string \<Rightarrow> string option" where
  "find_parent cache subtaskId =
     find (\<lambda>taskId. case obj_get cache taskId of
                      Some sts \<Rightarrow> list_ex (\<lambda>st. st_id st = subtaskId) sts
                    | None \<Rightarrow> False)
          (obj_keys cache)"

text \<open>\<open>if (parentTaskId)\<close>: \<open>undefined\<close> and the empty string are falsy.\<close>

definition truthy_key :: "string option \<Rightarrow> bool" where
  "truthy_key k = (case k of None \<Rightarrow> False | Some s \<Rightarrow> s \<noteq> [])"


subsection \<open>Resuming a suspended handler\<close>

text \<open>
  What each handler does from the \<open>await\<close> it is suspended at to its next \<open>await\<close> (or
  its end), on the response it was waiting for. \<open>updateSubtaskStatus\<close> looks for the parent
  in the cache it closed over when it was called, and writes through \<open>prev => ...\<close> to the
  cache as it is when the response arrives.
\<close>

fun resume :: "cont \<Rightarrow> response \<Rightarrow> tworld \<Rightarrow> tworld" where
  "resume In_fetchTasksData_goals (Goals_data goalsData) w =
     fetchTasksData_loop goalsData empty_dict (setGoals goalsData w)"
| "resume In_fetchTasksData_goals Failure w =
     setLoading False (console_error ''Error fetching tasks data:'' w)"
| "resume (In_fetchTasksData_tasks (g # rest) tasksData) (Tasks_data d) w =
     fetchTasksData_loop rest (dict_assign tasksData (g_id g) d) w"
| "resume (In_fetchTasksData_tasks gs tasksData) Failure w =
     setLoading False (console_error ''Error fetching tasks data:'' w)"
| "resume (In_toggleTaskExpansion taskId newExpanded) r w =
     setExpandedTasks newExpanded (fetchSubtasks_resume taskId r w)"
| "resume (In_updateTaskStatus taskId) Ack w =
     setLoadingStates (task_key taskId) False (fetchTasksData w)"
| "resume (In_updateTaskStatus taskId) Failure w =
     setLoadingStates (task_key taskId) False
       (alert ''Failed to update task status. Please try again.''
          (console_error ''Error updating task status:'' w))"
| "resume (In_updateSubtaskStatus_put subtaskId cache) Ack w =
     (let parentTaskId = find_parent cache subtaskId in
      if truthy_key parentTaskId
      then (case parentTaskId of
              Some p \<Rightarrow> issue (GET_task_subtasks p) (In_updateSubtaskStatus_get subtaskId p) w
            | None \<Rightarrow> w)
      else setLoadingStates (subtask_key subtaskId) False w)"
| "resume (In_updateSubtaskStatus_put subtaskId cache) Failure w =
     setLoadingStates (subtask_key subtaskId) False
       (alert ''Failed to update subtask status. Please try again.''
          (console_error ''Error updating subtask status:'' w))"
| "resume (In_updateSubtaskStatus_get subtaskId parentTaskId) (Subtasks_data d) w =
     setLoadingStates (subtask_key subtaskId) False (setSubtasks parentTaskId d w)"
| "resume (In_updateSubtaskStatus_get subtaskId parentTaskId) Failure w =
     setLoadingStates (subtask_key subtaskId) False
       (alert ''Failed to update subtask status. Please try again.''
          (console_error ''Error updating subtask status:'' w))"
| "resume _ _ w = w"

text \<open>The backend answers the \<open>n\<close>-th outstanding request.\<close>

definition respond :: "nat \<Rightarrow> response \<Rightarrow> tworld \<Rightarrow> tworld" where
  "respond n r w =
     (if n < length (pending w) \<and> accepts (fst (pending w ! n)) r
      then resume (snd (pending w ! n)) r
             (w\<lparr>pending := take n (pending w) @ drop (Suc n) (pending w)\<rparr>)
      else w)"

subsection \<open>Rendering, what is on screen, and clicks\<close>

text \<open>
  While \<open>loading\<close> the page shows a spinner only. Otherwise it goes through the goals. For
  each it takes \<open>goalTasks = tasks[goal.id] || []\<close>, calls \<open>goalTasks.filter\<close> (which throws
  when \<open>goalTasks\<close> is not an array), sorts \<open>goalTasks\<close> by week number, in place (the array
  is the one held in the \<open>tasks\<close> state, and the sort is stable), and lists the tasks in
  that order. Under a task that is expanded and for which \<open>subtasks[task.id]\<close> is truthy it
  lists \<open>subtasks[task.id].map(...)\<close>, which throws when that value is inherited. \<open>render\<close>
  is what a render does to the state: the sorting, up to the first throw, and on a throw the
  end of the page.
\<close>

definition subtasks_throw :: "tasks_page \<Rightarrow> task \<Rightarrow> bool" where
  "subtasks_throw p t =
     (t_id t \<in> expandedTasks p \<and> obj_lookup (subtasks p) (t_id t) = Inherited)"

fun render_goals :: "goal list \<Rightarrow> tasks_page \<Rightarrow> tasks_page" where
  "render_goals [] p = p"
| "render_goals (g # gs) p =
     (case dict_lookup (tasks p) (g_id g) of
        Inherited \<Rightarrow> p\<lparr>unmounted := True\<rparr>
      | Undefined \<Rightarrow> render_goals gs p
      | Own goalTasks \<Rightarrow>
          (let sorted = sort_key t_week_number goalTasks;
               p' = p\<lparr>tasks := dict_store (tasks p) (g_id g) sorted\<rparr>
           in if list_ex (subtasks_throw p) sorted then p'\<lparr>unmounted := True\<rparr>
              else render_goals gs p'))"

definition render :: "tasks_page \<Rightarrow> tasks_page" where
  "render p = (if unmounted p \<or> loading p then p else render_goals (goals p) p)"

text \<open>
  What is on screen after a render that did not throw: the tasks, goal by goal in week
  order, and the subtasks of the expanded tasks that have a cache entry. Each task and
  subtask carries the buttons of \<open>getStatusActions\<close>, disabled while
  \<open>loadingStates[`task_${task.id}`]\<close> (or \<open>`subtask_${subtask.id}`\<close>) is truthy.
\<close>

definition flag :: "tasks_page \<Rightarrow> string \<Rightarrow> bool" where
  "flag p k =
     (case obj_lookup (loadingStates p) k of Own b \<Rightarrow> b | Inherited \<Rightarrow> True | Undefined \<Rightarrow> False)"

definition rendered_tasks :: "tasks_page \<Rightarrow> task list" where
  "rendered_tasks p =
     (if unmounted p \<or> loading p then []
      else concat (map (\<lambda>g. case dict_lookup (tasks p) (g_id g) of
                               Own goalTasks \<Rightarrow> sort_key t_week_number goalTasks
                             | _ \<Rightarrow> [])
                       (goals p)))"

definition rendered_subtasks :: "tasks_page \<Rightarrow> subtask list" where
  "rendered_subtasks p =
     concat (map (\<lambda>t. if t_id t \<in> expandedTasks p
                       then (case obj_lookup (subtasks p) (t_id t) of Own sts \<Rightarrow> sts | _ \<Rightarrow> [])
                       else [])
                 (rendered_tasks p))"

text \<open>Pressing the button with a given key: the status its \<open>onClick\<close> passes on.\<close>

definition press :: "action list \<Rightarrow> string \<Rightarrow> string option" where
  "press actions key =
     (case find (\<lambda>a. a_key a = key) actions of
        Some a \<Rightarrow> if a_disabled a then None else Some (a_target a)
      | None \<Rightarrow> None)"

definition task_buttons :: "tasks_page \<Rightarrow> string \<Rightarrow> action list" where
  "task_buttons p taskId =
     concat (map (\<lambda>t. getStatusActions (t_status t) (flag p (task_key (t_id t))))
                 (filter (\<lambda>t. t_id t = taskId) (rendered_tasks p)))"

definition subtask_buttons :: "tasks_page \<Rightarrow> string \<Rightarrow> action list" where
  "subtask_buttons p subtaskId =
     concat (map (\<lambda>st. getStatusActions (st_status st) (flag p (subtask_key (st_id st))))
                 (filter (\<lambda>st. st_id st = subtaskId) (rendered_subtasks p)))"

definition click_toggle :: "tworld \<Rightarrow> string \<Rightarrow> tworld" where
  "click_toggle w taskId =
     (if list_ex (\<lambda>t. t_id t = taskId) (rendered_tasks (page w))
      then toggleTaskExpansion w taskId else w)"

definition click_task_action :: "tworld \<Rightarrow> string \<Rightarrow> string \<Rightarrow> tworld" where
  "click_task_action w taskId key =
     (case press (task_buttons (page w) taskId) key of
        Some newStatus \<Rightarrow> updateTaskStatus w taskId newStatus
      | None \<Rightarrow> w)"

definition click_subtask_action :: "tworld \<Rightarrow> string \<Rightarrow> string \<Rightarrow> tworld" where
  "click_subtask_action w subtaskId key =
     (case press (subtask_buttons (page w) subtaskId) key of
        Some newStatus \<Rightarrow> updateSubtaskStatus w subtaskId newStatus
      | None \<Rightarrow> w)"

text \<open>
  An event is a click on something on screen or a response of the backend; the handler
  runs to its next \<open>await\<close>, and the page is rendered again.
\<close>

datatype event =
    Click_toggle string
  | Click_task_action string string
  | Click_subtask_action string string
  | Respond nat response

fun handle :: "tworld \<Rightarrow> event \<Rightarrow> tworld" where
  "handle w (Click_toggle taskId) = click_toggle w taskId"
| "handle w (Click_task_action taskId key) = click_task_action w taskId key"
| "handle w (Click_subtask_action subtaskId key) = click_subtask_action w subtaskId key"
| "handle w (Respond n r) = respond n r w"

definition rerender :: "tworld \<Rightarrow> tworld" where
  "rerender w = w\<lparr>page := render (page w)\<rparr>"

definition step :: "tworld \<Rightarrow> event \<Rightarrow> tworld" where
  "step w e = rerender (handle w e)"

definition run :: "tworld \<Rightarrow> event list \<Rightarrow> tworld" where
  "run w es = foldl step w es"

text \<open>The page as first rendered, and after its mount effect has called \<open>fetchTasksData\<close>.\<close>

definition initial :: tworld where
  "initial =
     \<lparr>page = \<lparr>goals = [], tasks = empty_dict, subtasks = [], loading = True,
              expandedTasks = {}, loadingStates = [], unmounted = False\<rparr>,
      pending = [], trace = []\<rparr>"

definition mounted :: tworld where
  "mounted = fetchTasksData initial"

section \<open>The Goals page: creating and deleting goals\<close>

record form =
  f_goal_name :: string
  f_description :: string
  f_weeks :: int

record goals_page =
  gp_goals :: "goal list"
  gp_loading :: bool
  showCreateForm :: bool
  formData :: form
  formLoading :: bool

type_synonym gworld = "goals_page world"

definition setFormLoading :: "bool \<Rightarrow> gworld \<Rightarrow> gworld" where
  "setFormLoading b w =
     w\<lparr>page := (page w)\<lparr>formLoading := b\<rparr>, trace := trace w @ [Set_formLoading b]\<rparr>"

definition fetchGoals :: "gworld \<Rightarrow> gworld" where
  "fetchGoals w = issue GET_goals In_fetchGoals w"



fun gp_resume :: "cont \<Rightarrow> response \<Rightarrow> gworld \<Rightarrow> gworld" where
  "gp_resume In_fetchGoals (Goals_data d) w =
     w\<lparr>page := (page w)\<lparr>gp_goals := d, gp_loading := False\<rparr>\<rparr>"
| "gp_resume In_fetchGoals Failure w =
     (console_error ''Error fetching goals:'' w)
       \<lparr>page := (page w)\<lparr>gp_loading := False\<rparr>\<rparr>"
| "gp_resume In_handleCreateGoal Ack w =
     setFormLoading False
       (fetchGoals
          (w\<lparr>page := (page w)\<lparr>formData := \<lparr>f_goal_name = [], f_description = [], f_weeks = 4\<rparr>,
                               showCreateForm := False\<rparr>\<rparr>))"
| "gp_resume In_handleCreateGoal Failure w =
     setFormLoading False
       (alert ''Failed to create goal. Please try again.''
          (console_error ''Error creating goal:'' w))"
| "gp_resume In_handleDeleteGoal Ack w = fetchGoals w"
| "gp_resume In_handleDeleteGoal Failure w =
     alert ''Failed to delete goal. Please try again.''
       (console_error ''Error deleting goal:'' w)"
| "gp_resume _ _ w = w"

definition gp_respond :: "nat \<Rightarrow> response \<Rightarrow> gworld \<Rightarrow> gworld" where
  "gp_respond n r w =
     (if n < length (pending w) \<and> accepts (fst (pending w ! n)) r
      then gp_resume (snd (pending w ! n)) r
             (w\<lparr>pending := take n (pending w) @ drop (Suc n) (pending w)\<rparr>)
      else w)"

section \<open>The state the proofs talk about\<close>

text \<open>
  A suspended \<open>updateTaskStatus\<close> or \<open>updateSubtaskStatus\<close> holds the flag of its entity
  from its first statement to its \<open>finally\<close>. \<open>flags_inv\<close> says that every outstanding
  \<open>PUT\<close> belongs to the handler of its own entity, that no two suspended handlers hold the
  same flag, and that every held flag is set.
\<close>

fun flag_held :: "request \<times> cont \<Rightarrow> string option" where
  "flag_held (_, In_updateTaskStatus taskId) = Some (task_key taskId)"
| "flag_held (_, In_updateSubtaskStatus_put subtaskId _) = Some (subtask_key subtaskId)"
| "flag_held (_, In_updateSubtaskStatus_get subtaskId _) = Some (subtask_key subtaskId)"
| "flag_held _ = None"

fun paired :: "request \<times> cont \<Rightarrow> bool" where
  "paired (PUT_task taskId _, In_updateTaskStatus taskId') = (taskId = taskId')"
| "paired (PUT_task _ _, _) = False"
| "paired (PUT_subtask subtaskId _, In_updateSubtaskStatus_put subtaskId' _) = (subtaskId = subtaskId')"
| "paired (PUT_subtask _ _, _) = False"
| "paired _ = True"

definition held_flags :: "(request \<times> cont) list \<Rightarrow> string list" where
  "held_flags ps = concat (map (\<lambda>pk. case flag_held pk of Some k \<Rightarrow> [k] | None \<Rightarrow> []) ps)"

definition flags_inv :: "tworld \<Rightarrow> bool" where
  "flags_inv w =
     (list_all paired (pending w) \<and> distinct (held_flags (pending w))
      \<and> list_all (flag (page w)) (held_flags (pending w)))"

definition cached :: "tasks_page \<Rightarrow> string \<Rightarrow> bool" where
  "cached p taskId = (obj_lookup (subtasks p) taskId \<noteq> Undefined)"

text \<open>A small backend: one goal with two tasks, each with one subtask, and the pages over it.\<close>

definition demo_goal :: goal where
  "demo_goal = \<lparr>g_id = ''g1'', g_goal_name = ''Learn'', g_description = ''x'', g_weeks = 4\<rparr>"

definition other_goal :: goal where
  "other_goal = demo_goal\<lparr>g_id := ''g2''\<rparr>"

definition demo_task :: task where
  "demo_task = \<lparr>t_id = ''t1'', t_title = ''Week 1'', t_week_number = 1,
                 t_scheduled_date = ''2026-04-15T10:30:00'', t_status = ''pending''\<rparr>"

definition demo_task2 :: task where
  "demo_task2 = \<lparr>t_id = ''t2'', t_title = ''Week 2'', t_week_number = 2,
                  t_scheduled_date = ''2026-04-22T10:30:00'', t_status = ''pending''\<rparr>"

definition demo_subtask :: subtask where
  "demo_subtask = \<lparr>st_id = ''s1'', st_description = ''Day 1'',
                    st_scheduled_date = ''2026-04-15T10:30:00'', st_status = ''pending''\<rparr>"

definition demo_subtask2 :: subtask where
  "demo_subtask2 = \<lparr>st_id = ''s2'', st_description = ''Day 8'',
                     st_scheduled_date = ''2026-04-22T10:30:00'', st_status = ''pending''\<rparr>"

text \<open>
  States of the Tasks page over that backend, which lists the tasks of the goal as \<open>t2,
  t1\<close>: the goals loaded; the task list loaded (and sorted by the render); task \<open>t1\<close> being
  expanded (its subtasks requested), requested a second time, and expanded; \<open>t2\<close> being
  expanded, and both expanded; Start clicked on \<open>t1\<close>, and the refresh after its success
  outstanding; Complete clicked on subtask \<open>s1\<close>, and its refetch outstanding.
\<close>

definition goals_loaded :: tworld where
  "goals_loaded =
     \<lparr>page = (page initial)\<lparr>goals := [demo_goal]\<rparr>,
      pending = [(GET_goal_tasks ''g1'', In_fetchTasksData_tasks [demo_goal] empty_dict)],
      trace = [Issued GET_goals, Issued (GET_goal_tasks ''g1'')]\<rparr>"

definition loaded :: tworld where
  "loaded =
     \<lparr>page = \<lparr>goals = [demo_goal],
              tasks = \<lparr>own = [(''g1'', [demo_task, demo_task2])], proto = None\<rparr>,
              subtasks = [], loading = False, expandedTasks = {}, loadingStates = [],
              unmounted = False\<rparr>,
      pending = [],
      trace = [Issued GET_goals, Issued (GET_goal_tasks ''g1'')]\<rparr>"

definition expanding :: tworld where
  "expanding =
     loaded\<lparr>pending := [(GET_task_subtasks ''t1'', In_toggleTaskExpansion ''t1'' {''t1''})],
            trace := trace loaded @ [Issued (GET_task_subtasks ''t1'')]\<rparr>"

definition expanding_twice :: tworld where
  "expanding_twice =
     loaded\<lparr>pending := [(GET_task_subtasks ''t1'', In_toggleTaskExpansion ''t1'' {''t1''}),
                        (GET_task_subtasks ''t1'', In_toggleTaskExpansion ''t1'' {''t1''})],
            trace := trace loaded @ [Issued (GET_task_subtasks ''t1''),
                                     Issued (GET_task_subtasks ''t1'')]\<rparr>"

definition expanded :: tworld where
  "expanded =
     \<lparr>page = (page loaded)\<lparr>subtasks := [(''t1'', [demo_subtask])], expandedTasks := {''t1''}\<rparr>,
      pending = [],
      trace = trace loaded @ [Issued (GET_task_subtasks ''t1'')]\<rparr>"

definition expanding_second :: tworld where
  "expanding_second =
     expanded\<lparr>pending := [(GET_task_subtasks ''t2'',
                            In_toggleTaskExpansion ''t2'' {''t1'', ''t2''})],
              trace := trace expanded @ [Issued (GET_task_subtasks ''t2'')]\<rparr>"

definition both_expanded :: tworld where
  "both_expanded =
     \<lparr>page = (page loaded)\<lparr>subtasks := [(''t1'', [demo_subtask]), (''t2'', [demo_subtask2])],
                            expandedTasks := {''t1'', ''t2''}\<rparr>,
      pending = [],
      trace = trace expanding_second\<rparr>"

definition starting :: tworld where
  "starting =
     \<lparr>page = (page loaded)\<lparr>loadingStates := [(''task_t1'', True)]\<rparr>,
      pending = [(PUT_task ''t1'' ''in_progress'', In_updateTaskStatus ''t1'')],
      trace = trace loaded @ [Set_flag ''task_t1'' True, Issued (PUT_task ''t1'' ''in_progress'')]\<rparr>"

definition refreshing :: tworld where
  "refreshing =
     \<lparr>page = (page loaded)\<lparr>loadingStates := [(''task_t1'', False)]\<rparr>,
      pending = [(GET_goals, In_fetchTasksData_goals)],
      trace = trace starting @ [Issued GET_goals, Set_flag ''task_t1'' False]\<rparr>"

definition completing :: tworld where
  "completing =
     \<lparr>page = (page both_expanded)\<lparr>loadingStates := [(''subtask_s1'', True)]\<rparr>,
      pending = [(PUT_subtask ''s1'' ''completed'',
                  In_updateSubtaskStatus_put ''s1'' (subtasks (page both_expanded)))],
      trace = trace both_expanded @ [Set_flag ''subtask_s1'' True,
                                     Issued (PUT_subtask ''s1'' ''completed'')]\<rparr>"

definition refetching :: tworld where
  "refetching =
     completing\<lparr>pending := [(GET_task_subtasks ''t1'', In_updateSubtaskStatus_get ''s1'' ''t1'')],
                trace := trace completing @ [Issued (GET_task_subtasks ''t1'')]\<rparr>"

text \<open>
  A backend whose one task has the empty string as its id: the task list loaded, the task
  being expanded, expanded, Complete clicked on its subtask \<open>s1\<close>, and the update done.
\<close>

definition nameless_task :: task where
  "nameless_task = demo_task\<lparr>t_id := []\<rparr>"

definition nameless_loaded :: tworld where
  "nameless_loaded =
     loaded\<lparr>page := (page loaded)\<lparr>tasks := \<lparr>own = [(''g1'', [nameless_task])], proto = None\<rparr>\<rparr>\<rparr>"

definition nameless_expanding :: tworld where
  "nameless_expanding =
     nameless_loaded\<lparr>pending := [(GET_task_subtasks [], In_toggleTaskExpansion [] {[]})],
                     trace := trace loaded @ [Issued (GET_task_subtasks [])]\<rparr>"

definition nameless_expanded :: tworld where
  "nameless_expanded =
     \<lparr>page = (page nameless_loaded)\<lparr>subtasks := [([], [demo_subtask])], expandedTasks := {[]}\<rparr>,
      pending = [],
      trace = trace nameless_expanding\<rparr>"

definition nameless_completing :: tworld where
  "nameless_completing =
     \<lparr>page = (page nameless_expanded)\<lparr>loadingStates := [(''subtask_s1'', True)]\<rparr>,
      pending = [(PUT_subtask ''s1'' ''completed'',
                  In_updateSubtaskStatus_put ''s1'' [([], [demo_subtask])])],
      trace = trace nameless_expanded @ [Set_flag ''subtask_s1'' True,
                                         Issued (PUT_subtask ''s1'' ''completed'')]\<rparr>"



section \<open>The platform's Date (ECMA-262, Date objects)\<close>

text \<open>
  The Calendar page computes with \<open>Date\<close> objects through their local-time accessors and
  constructors only. A \<open>Date\<close> is kept as its time value read in local time, in
  milliseconds, \<open>None\<close> being the invalid date (time value \<open>NaN\<close>); the zone is taken to
  have a constant offset, so that local time round-trips, and the offset is left out of
  \<open>TimeClip\<close>. A number that may be \<open>NaN\<close> is an \<open>int option\<close>. The functions below are the
  abstract operations of the language specification, under its names.
\<close>

type_synonym jsdate = "int option"

definition msPerDay :: int where
  "msPerDay = 86400000"

definition Day :: "int \<Rightarrow> int" where
  "Day t = t div msPerDay"

definition TimeWithinDay :: "int \<Rightarrow> int" where
  "TimeWithinDay t = t mod msPerDay"

definition DaysInYear :: "int \<Rightarrow> int" where
  "DaysInYear y =
     (if y mod 4 \<noteq> 0 then 365 else if y mod 100 \<noteq> 0 then 366
      else if y mod 400 \<noteq> 0 then 365 else 366)"

definition DayFromYear :: "int \<Rightarrow> int" where
  "DayFromYear y =
     365 * (y - 1970) + (y - 1969) div 4 - (y - 1901) div 100 + (y - 1601) div 400"

text \<open>
  \<open>YearFromTime(t)\<close> is the largest year whose first day is not after \<open>t\<close>: a search
  upwards from a year that is not after it.
\<close>

function year_search :: "int \<Rightarrow> int \<Rightarrow> int" where
  "year_search d y = (if DayFromYear (y + 1) \<le> d then year_search d (y + 1) else y)"
  by pat_completeness auto
termination
proof (relation "measure (\<lambda>(d, y). nat (d + 1 - DayFromYear (y + 1)))")
  show "wf (measure (\<lambda>(d, y). nat (d + 1 - DayFromYear (y + 1))))"
    by simp
next
  fix d y :: int
  assume le: "DayFromYear (y + 1) \<le> d"
  have 4: "(y + 2 - 1969) div 4 \<ge> (y + 1 - 1969) div 4"
    by (intro zdiv_mono1) simp_all
  have 100: "(y + 2 - 1901) div 100 \<le> (y + 1 - 1901) div 100 + 1"
    by presburger
  have 400: "(y + 2 - 1601) div 400 \<ge> (y + 1 - 1601) div 400"
    by (intro zdiv_mono1) simp_all
  have "DayFromYear (y + 1) < DayFromYear (y + 1 + 1)"
    unfolding DayFromYear_def using 4 100 400 by simp
  with le show "((d, y + 1), (d, y)) \<in> measure (\<lambda>(d, y). nat (d + 1 - DayFromYear (y + 1)))"
    by simp
qed

definition YearFromDay :: "int \<Rightarrow> int" where
  "YearFromDay d = year_search d (1970 + (if 0 \<le> d then d div 366 else d div 365))"

definition YearFromTime :: "int \<Rightarrow> int" where
  "YearFromTime t = YearFromDay (Day t)"

definition InLeapYear :: "int \<Rightarrow> int" where
  "InLeapYear t = (if DaysInYear (YearFromTime t) = 366 then 1 else 0)"

definition DayWithinYear :: "int \<Rightarrow> int" where
  "DayWithinYear t = Day t - DayFromYear (YearFromTime t)"

definition month_of_day :: "int \<Rightarrow> int \<Rightarrow> int" where
  "month_of_day dwy leap =
     (if dwy < 31 then 0 else if dwy < 59 + leap then 1 else if dwy < 90 + leap then 2
      else if dwy < 120 + leap then 3 else if dwy < 151 + leap then 4
      else if dwy < 181 + leap then 5 else if dwy < 212 + leap then 6
      else if dwy < 243 + leap then 7 else if dwy < 273 + leap then 8
      else if dwy < 304 + leap then 9 else if dwy < 334 + leap then 10 else 11)"

definition MonthFromTime :: "int \<Rightarrow> int" where
  "MonthFromTime t = month_of_day (DayWithinYear t) (InLeapYear t)"

text \<open>The day of the year on which month \<open>m\<close> (0 to 11) starts.\<close>

definition month_start :: "int \<Rightarrow> int \<Rightarrow> int" where
  "month_start m leap =
     (if m = 0 then 0 else if m = 1 then 31 else if m = 2 then 59 + leap
      else if m = 3 then 90 + leap else if m = 4 then 120 + leap
      else if m = 5 then 151 + leap else if m = 6 then 181 + leap
      else if m = 7 then 212 + leap else if m = 8 then 243 + leap
      else if m = 9 then 273 + leap else if m = 10 then 304 + leap else 334 + leap)"

definition DateFromTime :: "int \<Rightarrow> int" where
  "DateFromTime t = DayWithinYear t - month_start (MonthFromTime t) (InLeapYear t) + 1"

definition WeekDay :: "int \<Rightarrow> int" where
  "WeekDay t = (Day t + 4) mod 7"

definition MakeDay :: "int \<Rightarrow> int \<Rightarrow> int \<Rightarrow> int" where
  "MakeDay year month date =
     (let ym = year + month div 12; mn = month mod 12
      in DayFromYear ym + month_start mn (if DaysInYear ym = 366 then 1 else 0) + date - 1)"

definition MakeDate :: "int \<Rightarrow> int \<Rightarrow> int" where
  "MakeDate day time = day * msPerDay + time"

definition TimeClip :: "int \<Rightarrow> jsdate" where
  "TimeClip t = (if \<bar>t\<bar> > 8640000000000000 then None else Some t)"



definition getMonth :: "jsdate \<Rightarrow> int option" where
  "getMonth d = map_option MonthFromTime d"



definition setMonth :: "jsdate \<Rightarrow> int option \<Rightarrow> jsdate" where
  "setMonth d month =
     (case (d, month) of
        (Some t, Some m) \<Rightarrow>
          TimeClip (MakeDate (MakeDay (YearFromTime t) m (DateFromTime t)) (TimeWithinDay t))
      | _ \<Rightarrow> None)"

text \<open>\<open>x + n\<close> on a number that may be \<open>NaN\<close>.\<close>

definition num_add :: "int option \<Rightarrow> int \<Rightarrow> int option" where
  "num_add x n = map_option (\<lambda>v. v + n) x"

subsection \<open>toDateString\<close>

fun dec :: "nat \<Rightarrow> string" where
  "dec n = (if n < 10 then [char_of (48 + n)] else dec (n div 10) @ [char_of (48 + n mod 10)])"

definition pad_zero :: "nat \<Rightarrow> string \<Rightarrow> string" where
  "pad_zero n s = replicate (n - length s) CHR ''0'' @ s"

definition weekday_names :: "string list" where
  "weekday_names = [''Sun'', ''Mon'', ''Tue'', ''Wed'', ''Thu'', ''Fri'', ''Sat'']"

definition month_names :: "string list" where
  "month_names = [''Jan'', ''Feb'', ''Mar'', ''Apr'', ''May'', ''Jun'',
                  ''Jul'', ''Aug'', ''Sep'', ''Oct'', ''Nov'', ''Dec'']"

definition year_string :: "int \<Rightarrow> string" where
  "year_string y = (if 0 \<le> y then [] else ''-'') @ pad_zero 4 (dec (nat \<bar>y\<bar>))"

definition toDateString :: "jsdate \<Rightarrow> string" where
  "toDateString d =
     (case d of
        None \<Rightarrow> ''Invalid Date''
      | Some t \<Rightarrow>
          weekday_names ! nat (WeekDay t) @ '' '' @ month_names ! nat (MonthFromTime t) @ '' ''
          @ pad_zero 2 (dec (nat (DateFromTime t))) @ '' '' @ year_string (YearFromTime t))"

section \<open>The Calendar page\<close>



definition isSameDate :: "jsdate \<Rightarrow> jsdate \<Rightarrow> bool" where
  "isSameDate date1 date2 = (toDateString date1 = toDateString date2)"

text \<open>
  \<open>getTasksForDate\<close> reads \<open>tasks\<close>, the state of the render (\<open>tasksState\<close>), and parses each
  \<open>scheduled_date\<close> with \<open>new Date(string)\<close>; how the platform parses a string is the
  parameter \<open>parse\<close>. \<open>Object.values(tasks).flat()\<close> is the lists of all goals, one after
  the other; the \<open>forEach\<close> pushes the matching tasks in that order.
\<close>

definition getTasksForDate ::
  "(string \<Rightarrow> jsdate) \<Rightarrow> task list obj \<Rightarrow> jsdate \<Rightarrow> task list" where
  "getTasksForDate parse tasksState date =
     foldl (\<lambda>allTasks task.
              let taskDate = parse (t_scheduled_date task)
              in if isSameDate taskDate date then allTasks @ [task] else allTasks)
           [] (concat (obj_values tasksState))"

definition navigateMonth :: "jsdate \<Rightarrow> int \<Rightarrow> jsdate" where
  "navigateMonth currentDate direction =
     (let newDate = currentDate
      in setMonth newDate (num_add (getMonth currentDate) direction))"

text \<open>
  The two loops that fill \<open>calendarDays\<close>; a cell is \<open>null\<close> (\<open>None\<close>) or a day number.
  A comparison with \<open>NaN\<close> is false, so a loop whose bound is \<open>NaN\<close> does not run.
\<close>

function blank_cells :: "int \<Rightarrow> int \<Rightarrow> int option list \<Rightarrow> int option list" where
  "blank_cells i firstDay cells =
     (if i < firstDay then blank_cells (i + 1) firstDay (cells @ [None]) else cells)"
  by pat_completeness auto
termination
  by (relation "measure (\<lambda>(i, firstDay, cells). nat (firstDay - i))") auto

function day_cells :: "int \<Rightarrow> int \<Rightarrow> int option list \<Rightarrow> int option list" where
  "day_cells day daysInMonth cells =
     (if day \<le> daysInMonth then day_cells (day + 1) daysInMonth (cells @ [Some day]) else cells)"
  by pat_completeness auto
termination
  by (relation "measure (\<lambda>(day, daysInMonth, cells). nat (daysInMonth + 1 - day))") auto



text \<open>What the grid is compared with: the length of month \<open>m\<close> (0 to 11) of a year.\<close>

definition month_days :: "int \<Rightarrow> int \<Rightarrow> int" where
  "month_days m leap =
     (if m = 1 then 28 + leap else if m = 3 \<or> m = 5 \<or> m = 8 \<or> m = 10 then 30 else 31)"

definition leap_of :: "int \<Rightarrow> int" where
  "leap_of y = (if DaysInYear y = 366 then 1 else 0)"

section \<open>Properties of the Status Transition Engine\<close>

text \<open>
  C1 (as the code has it): the available actions are \<open>complete, start\<close> for \<open>pending\<close>,
  \<open>complete, pause\<close> for \<open>in_progress\<close>, none for \<open>completed\<close>, and \<open>complete\<close> alone for
  \<open>cancelled\<close>: the guard of the first button only excludes \<open>completed\<close>.
\<close>

theorem getStatusActions_table:
  "set (map a_key (getStatusActions ''pending'' l)) = {''start'', ''complete''}
   \<and> set (map a_key (getStatusActions ''in_progress'' l)) = {''pause'', ''complete''}
   \<and> getStatusActions ''completed'' l = []
   \<and> set (map a_key (getStatusActions ''cancelled'' l)) = {''complete''}
   \<and> map a_target (getStatusActions ''pending'' l) = [''completed'', ''in_progress'']
   \<and> map a_target (getStatusActions ''in_progress'' l) = [''completed'', ''pending'']
   \<and> map a_target (getStatusActions ''cancelled'' l) = [''completed'']"
  by (auto simp: getStatusActions_def)

text \<open>
  C1 (as the specification states it) fails for \<open>cancelled\<close>: the engine offers
  \<open>complete\<close> there instead of an empty action set.
\<close>

theorem getStatusActions_cancelled_not_empty:
  "getStatusActions ''cancelled'' False
     = [\<lparr>a_key = ''complete'', a_target = ''completed'', a_disabled = False\<rparr>]
   \<and> getStatusActions ''cancelled'' False \<noteq> []"
  by (simp add: getStatusActions_def)

section \<open>Helper lemmas for the Tasks page\<close>

lemma obj_get_obj_set:
  "obj_get (obj_set ob k v) k' = (if k' = k then Some v else obj_get ob k')"
  by (induction ob) (auto simp: obj_get_def)

lemma obj_lookup_obj_set:
  "obj_lookup (obj_set ob k v) k' = (if k' = k then Own v else obj_lookup ob k')"
  using obj_get_obj_set[of ob k v k'] by (simp add: obj_lookup_def obj_get_def)

lemma obj_lookup_own: "obj_get ob k = Some v \<Longrightarrow> obj_lookup ob k = Own v"
  by (simp add: obj_lookup_def obj_get_def)

lemma obj_lookup_plain:
  "k \<notin> set object_prototype_keys \<Longrightarrow>
     obj_lookup ob k = (case obj_get ob k of Some v \<Rightarrow> Own v | None \<Rightarrow> Undefined)"
  by (simp add: obj_lookup_def obj_get_def)

lemma flag_keys_plain:
  "task_key a \<notin> set object_prototype_keys" "subtask_key a \<notin> set object_prototype_keys"
  by (simp_all add: task_key_def subtask_key_def object_prototype_keys_def)




lemmas world_ops = issue_def alert_def console_error_def setLoadingStates_def setSubtasks_def
  setExpandedTasks_def setGoals_def setTasks_def setLoading_def




lemma flag_other_fields [simp]:
  "flag (p\<lparr>expandedTasks := e\<rparr>) = flag p"
  "flag (p\<lparr>subtasks := sc\<rparr>) = flag p"
  "flag (p\<lparr>goals := gs\<rparr>) = flag p"
  "flag (p\<lparr>tasks := ts\<rparr>) = flag p"
  "flag (p\<lparr>loading := b\<rparr>) = flag p"
  "flag (p\<lparr>unmounted := b\<rparr>) = flag p"
  by (simp_all add: flag_def fun_eq_iff)

lemma flag_own:
  "flag p (task_key a) = (obj_get (loadingStates p) (task_key a) = Some True)"
  "flag p (subtask_key a) = (obj_get (loadingStates p) (subtask_key a) = Some True)"
  by (auto simp: flag_def obj_lookup_plain flag_keys_plain split: option.splits)

text \<open>A render sorts task lists and may end the page; it touches nothing else.\<close>

lemma render_goals_frame:
  "goals (render_goals gs p) = goals p \<and> subtasks (render_goals gs p) = subtasks p
   \<and> loading (render_goals gs p) = loading p
   \<and> expandedTasks (render_goals gs p) = expandedTasks p
   \<and> loadingStates (render_goals gs p) = loadingStates p"
  by (induction gs arbitrary: p) (auto simp: Let_def split: looked.splits)

lemma render_frame [simp]:
  "goals (render p) = goals p" "subtasks (render p) = subtasks p"
  "loading (render p) = loading p" "expandedTasks (render p) = expandedTasks p"
  "loadingStates (render p) = loadingStates p"
  by (simp_all add: render_def render_goals_frame)

lemma rerender_frame [simp]:
  "pending (rerender w) = pending w" "trace (rerender w) = trace w"
  "page (rerender w) = render (page w)"
  by (simp_all add: rerender_def)

lemma flag_render [simp]: "flag (render p) = flag p"
  by (simp add: flag_def fun_eq_iff)












lemma flags_inv_frame [simp]:
  "flags_inv (setGoals gs w) = flags_inv w"
  "flags_inv (setTasks ts w) = flags_inv w"
  "flags_inv (setLoading b w) = flags_inv w"
  "flags_inv (setExpandedTasks e w) = flags_inv w"
  "flags_inv (setSubtasks t d w) = flags_inv w"
  "flags_inv (alert m w) = flags_inv w"
  "flags_inv (console_error m w) = flags_inv w"
  by (simp_all add: flags_inv_def world_ops)

lemma pending_frame [simp]:
  "pending (setGoals gs w) = pending w"
  "pending (setTasks ts w) = pending w"
  "pending (setLoading b w) = pending w"
  "pending (setExpandedTasks e w) = pending w"
  "pending (setSubtasks t d w) = pending w"
  "pending (alert m w) = pending w"
  "pending (console_error m w) = pending w"
  "pending (setLoadingStates k b w) = pending w"
  "pending (issue req c w) = pending w @ [(req, c)]"
  by (simp_all add: world_ops)






lemma flags_inv_rerender [simp]: "flags_inv (rerender w) = flags_inv w"
  by (simp add: flags_inv_def)






subsection \<open>The example states are states of the page\<close>

lemma step_mounted_goals: "step mounted (Respond 0 (Goals_data [demo_goal])) = goals_loaded"
  by code_simp

lemma step_tasks_loaded:
  "step goals_loaded (Respond 0 (Tasks_data [demo_task2, demo_task])) = loaded"
  by code_simp

lemma step_loaded_toggle: "step loaded (Click_toggle ''t1'') = expanding"
  by code_simp

lemma step_expanding_toggle: "step expanding (Click_toggle ''t1'') = expanding_twice"
  by code_simp

lemma step_expanding_respond:
  "step expanding (Respond 0 (Subtasks_data [demo_subtask])) = expanded"
  by code_simp

lemma step_expanded_toggle: "step expanded (Click_toggle ''t2'') = expanding_second"
  by code_simp

lemma step_expanding_second_respond:
  "step expanding_second (Respond 0 (Subtasks_data [demo_subtask2])) = both_expanded"
  by code_simp

lemma step_loaded_start: "step loaded (Click_task_action ''t1'' ''start'') = starting"
  by code_simp

lemma step_starting_ack: "step starting (Respond 0 Ack) = refreshing"
  by code_simp

lemma step_both_expanded_complete:
  "step both_expanded (Click_subtask_action ''s1'' ''complete'') = completing"
  by code_simp

lemma step_completing_ack: "step completing (Respond 0 Ack) = refetching"
  by code_simp






lemma run_loaded:
  "run mounted [Respond 0 (Goals_data [demo_goal]),
                Respond 0 (Tasks_data [demo_task2, demo_task])] = loaded"
  by (simp only: run_def foldl.simps step_mounted_goals step_tasks_loaded)

lemma run_starting:
  "run mounted [Respond 0 (Goals_data [demo_goal]),
                Respond 0 (Tasks_data [demo_task2, demo_task]),
                Click_task_action ''t1'' ''start''] = starting"
  by (simp only: run_def foldl.simps step_mounted_goals step_tasks_loaded step_loaded_start)

lemma run_refreshing:
  "run loaded [Click_task_action ''t1'' ''start'', Respond 0 Ack] = refreshing"
  by (simp only: run_def foldl.simps step_loaded_start step_starting_ack)

lemma run_both_expanded:
  "run loaded [Click_toggle ''t1'', Respond 0 (Subtasks_data [demo_subtask]),
               Click_toggle ''t2'', Respond 0 (Subtasks_data [demo_subtask2])] = both_expanded"
  by (simp only: run_def foldl.simps step_loaded_toggle step_expanding_respond
      step_expanded_toggle step_expanding_second_respond)

lemma run_refetching:
  "run both_expanded [Click_subtask_action ''s1'' ''complete'', Respond 0 Ack] = refetching"
  by (simp only: run_def foldl.simps step_both_expanded_complete step_completing_ack)


lemma respond_at:
  "n < length (pending w) \<Longrightarrow> pending w ! n = (req, k) \<Longrightarrow> accepts req r \<Longrightarrow>
   respond n r w = resume k r (w\<lparr>pending := take n (pending w) @ drop (Suc n) (pending w)\<rparr>)"
  by (simp add: respond_def)

lemma trace_frame [simp]:
  "trace (setGoals gs w) = trace w"
  "trace (setTasks ts w) = trace w"
  "trace (setLoading b w) = trace w"
  "trace (setExpandedTasks e w) = trace w"
  "trace (setSubtasks t d w) = trace w"
  "trace (alert m w) = trace w @ [Alert m]"
  "trace (console_error m w) = trace w @ [Console_error m]"
  "trace (setLoadingStates k b w) = trace w @ [Set_flag k b]"
  "trace (issue req c w) = trace w @ [Issued req]"
  by (simp_all add: world_ops)

lemma page_frame [simp]:
  "page (setGoals gs w) = (page w)\<lparr>goals := gs\<rparr>"
  "page (setTasks ts w) = (page w)\<lparr>tasks := ts\<rparr>"
  "page (setLoading b w) = (page w)\<lparr>loading := b\<rparr>"
  "page (setExpandedTasks e w) = (page w)\<lparr>expandedTasks := e\<rparr>"
  "page (setSubtasks t d w) = (page w)\<lparr>subtasks := obj_set (subtasks (page w)) t d\<rparr>"
  "page (alert m w) = page w"
  "page (console_error m w) = page w"
  "page (setLoadingStates k b w) = (page w)\<lparr>loadingStates := obj_set (loadingStates (page w)) k b\<rparr>"
  "page (issue req c w) = page w"
  by (simp_all add: world_ops)


lemma obj_get_frame:
  "k' \<noteq> k \<Longrightarrow> obj_get (obj_set ob k v) k' = obj_get ob k'"
  "obj_get (obj_set ob k v) k = Some v"
  by (simp_all add: obj_get_obj_set)


lemma updateSubtaskStatus_trace:
  "trace (updateSubtaskStatus w subtaskId s)
     = trace w @ [Set_flag (subtask_key subtaskId) True, Issued (PUT_subtask subtaskId s)]"
  by (simp add: updateSubtaskStatus_def)








section \<open>Loading the subtasks of a task\<close>

lemma cached_frame [simp]:
  "cached (p\<lparr>expandedTasks := e\<rparr>) = cached p"
  "cached (p\<lparr>loadingStates := l\<rparr>) = cached p"
  "cached (p\<lparr>goals := gs\<rparr>) = cached p"
  "cached (p\<lparr>tasks := ts\<rparr>) = cached p"
  "cached (p\<lparr>loading := b\<rparr>) = cached p"
  "cached (p\<lparr>unmounted := b\<rparr>) = cached p"
  "cached (render p) = cached p"
  by (simp_all add: cached_def fun_eq_iff)

lemma cached_obj_set:
  "cached p t \<Longrightarrow> cached (p\<lparr>subtasks := obj_set (subtasks p) t' d\<rparr>) t"
  by (simp add: cached_def obj_lookup_obj_set)

lemma cached_loop: "cached (page (fetchTasksData_loop gs td w)) = cached (page w)"
  by (cases gs) simp_all

lemma cached_resume: "cached (page w) t \<Longrightarrow> cached (page (resume k r w)) t"
proof (cases k)
  case In_fetchTasksData_goals
  then show "cached (page w) t \<Longrightarrow> ?thesis"
    by (cases r) (simp_all add: cached_loop)
next
  case (In_fetchTasksData_tasks gs td)
  then show "cached (page w) t \<Longrightarrow> ?thesis"
    by (cases r; cases gs) (simp_all add: cached_loop)
next
  case (In_toggleTaskExpansion t' ne)
  then show "cached (page w) t \<Longrightarrow> ?thesis"
    by (cases r) (simp_all add: cached_obj_set)
next
  case (In_updateTaskStatus t')
  then show "cached (page w) t \<Longrightarrow> ?thesis"
    by (cases r) (simp_all add: fetchTasksData_def)
next
  case (In_updateSubtaskStatus_put sid c)
  then show "cached (page w) t \<Longrightarrow> ?thesis"
    by (cases r) (simp_all add: Let_def split: option.splits)
next
  case (In_updateSubtaskStatus_get sid p)
  then show "cached (page w) t \<Longrightarrow> ?thesis"
    by (cases r) (simp_all add: cached_obj_set)
qed simp_all

lemma cached_respond: "cached (page w) t \<Longrightarrow> cached (page (respond n r w)) t"
  by (simp add: respond_def cached_resume)

lemma cached_toggle: "cached (page w) t \<Longrightarrow> cached (page (toggleTaskExpansion w t')) t"
  by (simp add: toggleTaskExpansion_def Let_def split: option.splits)

lemma cached_handle: "cached (page w) t \<Longrightarrow> cached (page (handle w e)) t"
  by (cases e)
     (simp_all add: cached_respond cached_toggle click_toggle_def click_task_action_def
        click_subtask_action_def updateTaskStatus_def updateSubtaskStatus_def split: option.splits)

lemma cached_step: "cached (page w) t \<Longrightarrow> cached (page (step w e)) t"
  by (simp add: step_def cached_handle)

lemma cached_run: "cached (page w) t \<Longrightarrow> cached (page (run w es)) t"
  unfolding run_def by (induction es arbitrary: w) (simp_all add: cached_step)

lemma toggle_cached_no_fetch:
  "cached (page w) t \<Longrightarrow> trace (toggleTaskExpansion w t) = trace w
     \<and> pending (toggleTaskExpansion w t) = pending w"
  by (auto simp: toggleTaskExpansion_def cached_def fetchSubtasks_start_def Let_def
      split: looked.splits)

lemma toggle_uncached_fetch:
  "taskId \<notin> expandedTasks (page w) \<Longrightarrow> obj_lookup (subtasks (page w)) taskId = Undefined \<Longrightarrow>
   toggleTaskExpansion w taskId
     = issue (GET_task_subtasks taskId)
         (In_toggleTaskExpansion taskId (insert taskId (expandedTasks (page w)))) w"
  by (simp add: toggleTaskExpansion_def fetchSubtasks_start_def Let_def)

lemma toggle_loaded: "toggleTaskExpansion loaded ''t1'' = expanding"
  by code_simp

text \<open>
  C3 (as the code has it): expanding a task for which the cache lookup gives \<open>undefined\<close>
  issues one fetch for it; when that fetch succeeds the task's entry is the response; and
  from a state in which the lookup is not \<open>undefined\<close>, whatever happens next on the page
  (\<open>es\<close>), it stays so and a further call of \<open>toggleTaskExpansion\<close> for the task issues no
  request. So calls made one after the other, the first fetch having succeeded, fetch
  exactly once. For a task id that names a property every plain object inherits
  (\<open>constructor\<close>, \<open>toString\<close>, \<open>__proto__\<close>, ...) the lookup is never \<open>undefined\<close>, so no
  fetch is ever issued for such a task.
\<close>

theorem subtasks_fetched_once_sequentially:
  "(taskId \<notin> expandedTasks (page w) \<and> obj_lookup (subtasks (page w)) taskId = Undefined \<longrightarrow>
      trace (toggleTaskExpansion w taskId) = trace w @ [Issued (GET_task_subtasks taskId)]
      \<and> pending (toggleTaskExpansion w taskId)
          = pending w @ [(GET_task_subtasks taskId,
                          In_toggleTaskExpansion taskId (insert taskId (expandedTasks (page w))))])
   \<and> (n < length (pending w)
        \<and> pending w ! n = (GET_task_subtasks taskId, In_toggleTaskExpansion taskId ne) \<longrightarrow>
      obj_lookup (subtasks (page (respond n (Subtasks_data d) w))) taskId = Own d
      \<and> trace (respond n (Subtasks_data d) w) = trace w)
   \<and> (obj_lookup (subtasks (page w)) taskId \<noteq> Undefined \<longrightarrow>
      obj_lookup (subtasks (page (run w es))) taskId \<noteq> Undefined
      \<and> trace (toggleTaskExpansion (run w es) taskId) = trace (run w es)
      \<and> pending (toggleTaskExpansion (run w es) taskId) = pending (run w es))
   \<and> (taskId \<in> set object_prototype_keys \<longrightarrow>
      obj_lookup (subtasks (page w)) taskId \<noteq> Undefined)"
proof (intro conjI impI)
  assume "taskId \<notin> expandedTasks (page w) \<and> obj_lookup (subtasks (page w)) taskId = Undefined"
  then have t: "toggleTaskExpansion w taskId
     = issue (GET_task_subtasks taskId)
         (In_toggleTaskExpansion taskId (insert taskId (expandedTasks (page w)))) w"
    by (simp add: toggle_uncached_fetch)
  show "trace (toggleTaskExpansion w taskId) = trace w @ [Issued (GET_task_subtasks taskId)]"
    by (simp add: t)
  show "pending (toggleTaskExpansion w taskId)
          = pending w @ [(GET_task_subtasks taskId,
                          In_toggleTaskExpansion taskId (insert taskId (expandedTasks (page w))))]"
    by (simp add: t)
next
  assume a: "n < length (pending w)
        \<and> pending w ! n = (GET_task_subtasks taskId, In_toggleTaskExpansion taskId ne)"
  then have r: "respond n (Subtasks_data d) w
      = resume (In_toggleTaskExpansion taskId ne) (Subtasks_data d)
          (w\<lparr>pending := take n (pending w) @ drop (Suc n) (pending w)\<rparr>)"
    by (simp add: respond_at[where req = "GET_task_subtasks taskId"])
  show "obj_lookup (subtasks (page (respond n (Subtasks_data d) w))) taskId = Own d"
    by (simp add: r obj_lookup_obj_set)
  show "trace (respond n (Subtasks_data d) w) = trace w"
    by (simp add: r)
next
  assume "obj_lookup (subtasks (page w)) taskId \<noteq> Undefined"
  then have "cached (page w) taskId"
    by (simp add: cached_def)
  then have c: "cached (page (run w es)) taskId"
    by (rule cached_run)
  then show "obj_lookup (subtasks (page (run w es))) taskId \<noteq> Undefined"
    unfolding cached_def .
  from c show "trace (toggleTaskExpansion (run w es) taskId) = trace (run w es)"
    by (simp add: toggle_cached_no_fetch)
  from c show "pending (toggleTaskExpansion (run w es) taskId) = pending (run w es)"
    by (simp add: toggle_cached_no_fetch)
next
  assume "taskId \<in> set object_prototype_keys"
  then show "obj_lookup (subtasks (page w)) taskId \<noteq> Undefined"
    by (simp add: obj_lookup_def split: option.splits)
qed

text \<open>
  C3, on a run of the page: \<open>t1\<close> is expanded from the loaded page, which issues its fetch;
  the fetch succeeds; one more click collapses it, and expanding it again issues nothing.
  The whole run has fetched the subtasks of \<open>t1\<close> once. A task named \<open>constructor\<close> is never
  fetched.
\<close>

theorem subtasks_fetched_once_sequentially_witness:
  "run mounted [Respond 0 (Goals_data [demo_goal]),
                Respond 0 (Tasks_data [demo_task2, demo_task])] = loaded
   \<and> toggleTaskExpansion loaded ''t1'' = expanding
   \<and> run expanding [Respond 0 (Subtasks_data [demo_subtask])] = expanded
   \<and> ''t1'' \<notin> expandedTasks (page loaded) \<and> obj_lookup (subtasks (page loaded)) ''t1'' = Undefined
   \<and> trace (toggleTaskExpansion loaded ''t1'') = trace loaded @ [Issued (GET_task_subtasks ''t1'')]
   \<and> pending expanding ! 0 = (GET_task_subtasks ''t1'', In_toggleTaskExpansion ''t1'' {''t1''})
   \<and> obj_lookup (subtasks (page (respond 0 (Subtasks_data [demo_subtask]) expanding))) ''t1''
       = Own [demo_subtask]
   \<and> obj_lookup (subtasks (page expanded)) ''t1'' \<noteq> Undefined
   \<and> obj_lookup (subtasks (page (run expanded [Click_toggle ''t1'']))) ''t1'' \<noteq> Undefined
   \<and> trace (toggleTaskExpansion (run expanded [Click_toggle ''t1'']) ''t1'')
       = trace (run expanded [Click_toggle ''t1''])
   \<and> requests (run expanded [Click_toggle ''t1''])
       = [GET_goals, GET_goal_tasks ''g1'', GET_task_subtasks ''t1'']
   \<and> ''constructor'' \<in> set object_prototype_keys
   \<and> obj_lookup (subtasks (page loaded)) ''constructor'' \<noteq> Undefined"
proof -
  have u: "''t1'' \<notin> expandedTasks (page loaded) \<and> obj_lookup (subtasks (page loaded)) ''t1'' = Undefined"
    by code_simp
  have e: "0 < length (pending expanding)
      \<and> pending expanding ! 0 = (GET_task_subtasks ''t1'', In_toggleTaskExpansion ''t1'' {''t1''})"
    by (simp add: expanding_def)
  have a: "obj_lookup (subtasks (page expanded)) ''t1'' \<noteq> Undefined"
    by code_simp
  have b: "requests (run expanded [Click_toggle ''t1''])
       = [GET_goals, GET_goal_tasks ''g1'', GET_task_subtasks ''t1'']"
    by code_simp
  have c: "''constructor'' \<in> set object_prototype_keys"
    by (simp add: object_prototype_keys_def)
  from subtasks_fetched_once_sequentially[where w = loaded and taskId = "''t1''"] u
  have 1: "trace (toggleTaskExpansion loaded ''t1'') = trace loaded @ [Issued (GET_task_subtasks ''t1'')]"
    by simp
  from subtasks_fetched_once_sequentially[where w = expanding and taskId = "''t1''" and n = 0
      and ne = "{''t1''}" and d = "[demo_subtask]"] e
  have 2: "obj_lookup (subtasks (page (respond 0 (Subtasks_data [demo_subtask]) expanding))) ''t1''
       = Own [demo_subtask]"
    by simp
  from subtasks_fetched_once_sequentially[where w = expanded and taskId = "''t1''"
      and es = "[Click_toggle ''t1'']"] a
  have 3: "obj_lookup (subtasks (page (run expanded [Click_toggle ''t1'']))) ''t1'' \<noteq> Undefined
      \<and> trace (toggleTaskExpansion (run expanded [Click_toggle ''t1'']) ''t1'')
          = trace (run expanded [Click_toggle ''t1''])"
    by simp
  from subtasks_fetched_once_sequentially[where w = loaded and taskId = "''constructor''"] c
  have 4: "obj_lookup (subtasks (page loaded)) ''constructor'' \<noteq> Undefined"
    by simp
  have r: "run expanding [Respond 0 (Subtasks_data [demo_subtask])] = expanded"
    by (simp only: run_def foldl.simps step_expanding_respond)
  from run_loaded toggle_loaded r u e a b c 1 2 3 4 show ?thesis by simp
qed

text \<open>
  C3 (as the specification states it) fails for rapid toggling: the second click arrives
  while the first fetch is outstanding, finds the task neither expanded nor cached (both are
  written only after the \<open>await\<close>), and issues a second fetch for the same task.
\<close>

theorem rapid_toggle_fetches_twice:
  "requests (run mounted [Respond 0 (Goals_data [demo_goal]),
                          Respond 0 (Tasks_data [demo_task2, demo_task]),
                          Click_toggle ''t1'', Click_toggle ''t1''])
     = [GET_goals, GET_goal_tasks ''g1'', GET_task_subtasks ''t1'', GET_task_subtasks ''t1'']
   \<and> map fst (pending (run mounted [Respond 0 (Goals_data [demo_goal]),
                                     Respond 0 (Tasks_data [demo_task2, demo_task]),
                                     Click_toggle ''t1'', Click_toggle ''t1'']))
       = [GET_task_subtasks ''t1'', GET_task_subtasks ''t1'']"
proof -
  have "run mounted [Respond 0 (Goals_data [demo_goal]),
                     Respond 0 (Tasks_data [demo_task2, demo_task]),
                     Click_toggle ''t1'', Click_toggle ''t1''] = expanding_twice"
    by (simp only: run_def foldl.simps step_mounted_goals step_tasks_loaded step_loaded_toggle
        step_expanding_toggle)
  moreover have "requests expanding_twice
     = [GET_goals, GET_goal_tasks ''g1'', GET_task_subtasks ''t1'', GET_task_subtasks ''t1'']"
    by code_simp
  moreover have "map fst (pending expanding_twice)
     = [GET_task_subtasks ''t1'', GET_task_subtasks ''t1'']"
    by code_simp
  ultimately show ?thesis by simp
qed

section \<open>What a handler does, from its call and from each response\<close>

lemma set_obj_keys: "set (obj_keys ob) = fst ` set ob"
  by (auto simp: obj_keys_def)

lemma find_parent_None:
  "(find_parent cache sid = None) =
     (\<forall>k sts. obj_get cache k = Some sts \<longrightarrow> \<not> list_ex (\<lambda>st. st_id st = sid) sts)"
proof
  assume "find_parent cache sid = None"
  then have none: "\<forall>k \<in> fst ` set cache.
      \<not> (case obj_get cache k of Some sts \<Rightarrow> list_ex (\<lambda>st. st_id st = sid) sts | None \<Rightarrow> False)"
    by (simp add: find_parent_def find_None_iff set_obj_keys)
  show "\<forall>k sts. obj_get cache k = Some sts \<longrightarrow> \<not> list_ex (\<lambda>st. st_id st = sid) sts"
  proof (intro allI impI)
    fix k sts
    assume g: "obj_get cache k = Some sts"
    then have "k \<in> fst ` set cache"
      by (metis obj_get_def map_of_eq_None_iff option.distinct(1))
    with none g show "\<not> list_ex (\<lambda>st. st_id st = sid) sts" by force
  qed
next
  assume "\<forall>k sts. obj_get cache k = Some sts \<longrightarrow> \<not> list_ex (\<lambda>st. st_id st = sid) sts"
  then show "find_parent cache sid = None"
    by (auto simp: find_parent_def find_None_iff split: option.splits)
qed



text \<open>The response to each kind of suspended handler, on the page, the trace and the
  outstanding requests.\<close>

lemma respond_put_task_failure:
  assumes "n < length (pending w)"
    "pending w ! n = (PUT_task taskId s, In_updateTaskStatus taskId)"
  shows "page (respond n Failure w)
           = (page w)\<lparr>loadingStates := obj_set (loadingStates (page w)) (task_key taskId) False\<rparr>"
    and "trace (respond n Failure w)
           = trace w @ [Console_error ''Error updating task status:'',
                        Alert ''Failed to update task status. Please try again.'',
                        Set_flag (task_key taskId) False]"
    and "pending (respond n Failure w) = take n (pending w) @ drop (Suc n) (pending w)"
  using assms by (simp_all add: respond_at[where req = "PUT_task taskId s"])

lemma respond_put_task_ack:
  assumes "n < length (pending w)"
    "pending w ! n = (PUT_task taskId s, In_updateTaskStatus taskId)"
  shows "page (respond n Ack w)
           = (page w)\<lparr>loadingStates := obj_set (loadingStates (page w)) (task_key taskId) False\<rparr>"
    and "trace (respond n Ack w) = trace w @ [Issued GET_goals, Set_flag (task_key taskId) False]"
    and "pending (respond n Ack w)
           = take n (pending w) @ drop (Suc n) (pending w) @ [(GET_goals, In_fetchTasksData_goals)]"
  using assms by (simp_all add: respond_at[where req = "PUT_task taskId s"] fetchTasksData_def)

lemma respond_put_subtask_failure:
  assumes "n < length (pending w)"
    "pending w ! n = (PUT_subtask subtaskId s, In_updateSubtaskStatus_put subtaskId cache)"
  shows "page (respond n Failure w)
           = (page w)\<lparr>loadingStates := obj_set (loadingStates (page w)) (subtask_key subtaskId) False\<rparr>"
    and "trace (respond n Failure w)
           = trace w @ [Console_error ''Error updating subtask status:'',
                        Alert ''Failed to update subtask status. Please try again.'',
                        Set_flag (subtask_key subtaskId) False]"
    and "pending (respond n Failure w) = take n (pending w) @ drop (Suc n) (pending w)"
  using assms by (simp_all add: respond_at[where req = "PUT_subtask subtaskId s"])

lemma respond_put_subtask_ack_parent:
  assumes "n < length (pending w)"
    "pending w ! n = (PUT_subtask subtaskId s, In_updateSubtaskStatus_put subtaskId cache)"
    "find_parent cache subtaskId = Some p" "p \<noteq> []"
  shows "page (respond n Ack w) = page w"
    and "trace (respond n Ack w) = trace w @ [Issued (GET_task_subtasks p)]"
    and "pending (respond n Ack w)
           = take n (pending w) @ drop (Suc n) (pending w)
             @ [(GET_task_subtasks p, In_updateSubtaskStatus_get subtaskId p)]"
  using assms
  by (simp_all add: respond_at[where req = "PUT_subtask subtaskId s"] truthy_key_def)

lemma respond_put_subtask_ack_no_parent:
  assumes "n < length (pending w)"
    "pending w ! n = (PUT_subtask subtaskId s, In_updateSubtaskStatus_put subtaskId cache)"
    "\<not> truthy_key (find_parent cache subtaskId)"
  shows "page (respond n Ack w)
           = (page w)\<lparr>loadingStates := obj_set (loadingStates (page w)) (subtask_key subtaskId) False\<rparr>"
    and "trace (respond n Ack w) = trace w @ [Set_flag (subtask_key subtaskId) False]"
    and "pending (respond n Ack w) = take n (pending w) @ drop (Suc n) (pending w)"
  using assms
  by (simp_all add: respond_at[where req = "PUT_subtask subtaskId s"])

lemma respond_refetch_data:
  assumes "n < length (pending w)"
    "pending w ! n = (GET_task_subtasks p, In_updateSubtaskStatus_get subtaskId p)"
  shows "page (respond n (Subtasks_data d) w)
           = (page w)\<lparr>subtasks := obj_set (subtasks (page w)) p d,
                      loadingStates := obj_set (loadingStates (page w)) (subtask_key subtaskId) False\<rparr>"
    and "trace (respond n (Subtasks_data d) w) = trace w @ [Set_flag (subtask_key subtaskId) False]"
    and "pending (respond n (Subtasks_data d) w) = take n (pending w) @ drop (Suc n) (pending w)"
  using assms by (simp_all add: respond_at[where req = "GET_task_subtasks p"])

lemma respond_refetch_failure:
  assumes "n < length (pending w)"
    "pending w ! n = (GET_task_subtasks p, In_updateSubtaskStatus_get subtaskId p)"
  shows "page (respond n Failure w)
           = (page w)\<lparr>loadingStates := obj_set (loadingStates (page w)) (subtask_key subtaskId) False\<rparr>"
    and "trace (respond n Failure w)
           = trace w @ [Console_error ''Error updating subtask status:'',
                        Alert ''Failed to update subtask status. Please try again.'',
                        Set_flag (subtask_key subtaskId) False]"
    and "pending (respond n Failure w) = take n (pending w) @ drop (Suc n) (pending w)"
  using assms by (simp_all add: respond_at[where req = "GET_task_subtasks p"])

lemma respond_fetch_subtasks_failure:
  assumes "n < length (pending w)"
    "pending w ! n = (GET_task_subtasks taskId, In_toggleTaskExpansion taskId ne)"
  shows "page (respond n Failure w) = (page w)\<lparr>expandedTasks := ne\<rparr>"
    and "trace (respond n Failure w) = trace w @ [Console_error ''Error fetching subtasks:'']"
    and "pending (respond n Failure w) = take n (pending w) @ drop (Suc n) (pending w)"
  using assms by (simp_all add: respond_at[where req = "GET_task_subtasks taskId"])

lemma respond_fetch_goals_failure:
  assumes "n < length (pending w)" "pending w ! n = (GET_goals, In_fetchTasksData_goals)"
  shows "page (respond n Failure w) = (page w)\<lparr>loading := False\<rparr>"
    and "trace (respond n Failure w) = trace w @ [Console_error ''Error fetching tasks data:'']"
    and "pending (respond n Failure w) = take n (pending w) @ drop (Suc n) (pending w)"
  using assms by (simp_all add: respond_at[where req = "GET_goals"])

lemma respond_fetch_tasks_failure:
  assumes "n < length (pending w)"
    "pending w ! n = (GET_goal_tasks goalId, In_fetchTasksData_tasks gs tasksData)"
  shows "page (respond n Failure w) = (page w)\<lparr>loading := False\<rparr>"
    and "trace (respond n Failure w) = trace w @ [Console_error ''Error fetching tasks data:'']"
    and "pending (respond n Failure w) = take n (pending w) @ drop (Suc n) (pending w)"
  using assms by (simp_all add: respond_at[where req = "GET_goal_tasks goalId"])

lemma respond_fetch_goals_data:
  assumes "n < length (pending w)" "pending w ! n = (GET_goals, In_fetchTasksData_goals)"
  shows "page (respond n (Goals_data (g # gs)) w) = (page w)\<lparr>goals := g # gs\<rparr>"
    and "trace (respond n (Goals_data (g # gs)) w) = trace w @ [Issued (GET_goal_tasks (g_id g))]"
    and "pending (respond n (Goals_data (g # gs)) w)
           = take n (pending w) @ drop (Suc n) (pending w)
             @ [(GET_goal_tasks (g_id g), In_fetchTasksData_tasks (g # gs) empty_dict)]"
  using assms by (simp_all add: respond_at[where req = "GET_goals"])

lemma updateTaskStatus_call:
  "page (updateTaskStatus w taskId s)
     = (page w)\<lparr>loadingStates := obj_set (loadingStates (page w)) (task_key taskId) True\<rparr>"
  "pending (updateTaskStatus w taskId s)
     = pending w @ [(PUT_task taskId s, In_updateTaskStatus taskId)]"
  by (simp_all add: updateTaskStatus_def)

lemma updateSubtaskStatus_call:
  "page (updateSubtaskStatus w subtaskId s)
     = (page w)\<lparr>loadingStates := obj_set (loadingStates (page w)) (subtask_key subtaskId) True\<rparr>"
  "pending (updateSubtaskStatus w subtaskId s)
     = pending w @ [(PUT_subtask subtaskId s,
                     In_updateSubtaskStatus_put subtaskId (subtasks (page w)))]"
  by (simp_all add: updateSubtaskStatus_def)

lemma fetchTasksData_call:
  "page (fetchTasksData w) = page w"
  "trace (fetchTasksData w) = trace w @ [Issued GET_goals]"
  "pending (fetchTasksData w) = pending w @ [(GET_goals, In_fetchTasksData_goals)]"
  by (simp_all add: fetchTasksData_def)

lemma render_goals_loadingStates:
  "render_goals gs (p\<lparr>loadingStates := x\<rparr>) = (render_goals gs p)\<lparr>loadingStates := x\<rparr>"
proof (induction gs arbitrary: p)
  case Nil
  show ?case by simp
next
  case (Cons g gs)
  have t: "subtasks_throw (p\<lparr>loadingStates := x\<rparr>) = subtasks_throw p"
    by (simp add: subtasks_throw_def fun_eq_iff)
  have c: "p\<lparr>loadingStates := x, tasks := d\<rparr> = p\<lparr>tasks := d, loadingStates := x\<rparr>" for d
    by simp
  show ?case
    by (simp add: Let_def t c Cons.IH del: tasks_page.update_convs split: looked.splits)
qed

lemma render_loadingStates:
  "render (p\<lparr>loadingStates := x\<rparr>) = (render p)\<lparr>loadingStates := x\<rparr>"
  by (simp add: render_def render_goals_loadingStates)

section \<open>Failed and successful status updates\<close>

text \<open>
  C4: a status update, from its call to its end. The call of \<open>updateTaskStatus\<close> leaves the
  goal, task and subtask collections as they are, sets the flag of the task and issues the
  \<open>PUT\<close>. In whatever state \<open>v\<close> the page is when the \<open>PUT\<close> fails, the collections of
  \<open>v\<close> are left as they are, the failure is logged and alerted, nothing is requested, and
  the flag is cleared, so that the render that follows shows \<open>v\<close> with the flag cleared; when
  the \<open>PUT\<close> succeeds the flag is cleared as well. The same holds
  for \<open>updateSubtaskStatus\<close>, whose flag is cleared on the success of the \<open>PUT\<close> when there
  is no parent to refetch, and otherwise (the refetch is then outstanding, the page
  untouched) on the response to the refetch, be it data or a failure, in whatever state
  \<open>u\<close> the page then is.
\<close>

theorem failed_update_leaves_state_and_clears_flag:
  "goals (page (updateTaskStatus w taskId s)) = goals (page w)
   \<and> tasks (page (updateTaskStatus w taskId s)) = tasks (page w)
   \<and> subtasks (page (updateTaskStatus w taskId s)) = subtasks (page w)
   \<and> pending (updateTaskStatus w taskId s)
       = pending w @ [(PUT_task taskId s, In_updateTaskStatus taskId)]
   \<and> (\<forall>v n. n < length (pending v)
          \<and> pending v ! n = (PUT_task taskId s, In_updateTaskStatus taskId) \<longrightarrow>
        goals (page (respond n Failure v)) = goals (page v)
        \<and> tasks (page (respond n Failure v)) = tasks (page v)
        \<and> subtasks (page (respond n Failure v)) = subtasks (page v)
        \<and> trace (respond n Failure v)
            = trace v @ [Console_error ''Error updating task status:'',
                         Alert ''Failed to update task status. Please try again.'',
                         Set_flag (task_key taskId) False]
        \<and> page (step v (Respond n Failure))
            = (render (page v))\<lparr>loadingStates :=
                 obj_set (loadingStates (page v)) (task_key taskId) False\<rparr>
        \<and> obj_get (loadingStates (page (respond n Failure v))) (task_key taskId) = Some False
        \<and> \<not> flag (page (respond n Failure v)) (task_key taskId)
        \<and> obj_get (loadingStates (page (respond n Ack v))) (task_key taskId) = Some False
        \<and> \<not> flag (page (respond n Ack v)) (task_key taskId))
   \<and> goals (page (updateSubtaskStatus w subtaskId s)) = goals (page w)
   \<and> tasks (page (updateSubtaskStatus w subtaskId s)) = tasks (page w)
   \<and> subtasks (page (updateSubtaskStatus w subtaskId s)) = subtasks (page w)
   \<and> pending (updateSubtaskStatus w subtaskId s)
       = pending w @ [(PUT_subtask subtaskId s,
                       In_updateSubtaskStatus_put subtaskId (subtasks (page w)))]
   \<and> (\<forall>v n. n < length (pending v)
          \<and> pending v ! n = (PUT_subtask subtaskId s,
                              In_updateSubtaskStatus_put subtaskId (subtasks (page w))) \<longrightarrow>
        goals (page (respond n Failure v)) = goals (page v)
        \<and> tasks (page (respond n Failure v)) = tasks (page v)
        \<and> subtasks (page (respond n Failure v)) = subtasks (page v)
        \<and> trace (respond n Failure v)
            = trace v @ [Console_error ''Error updating subtask status:'',
                         Alert ''Failed to update subtask status. Please try again.'',
                         Set_flag (subtask_key subtaskId) False]
        \<and> page (step v (Respond n Failure))
            = (render (page v))\<lparr>loadingStates :=
                 obj_set (loadingStates (page v)) (subtask_key subtaskId) False\<rparr>
        \<and> obj_get (loadingStates (page (respond n Failure v))) (subtask_key subtaskId)
            = Some False
        \<and> \<not> flag (page (respond n Failure v)) (subtask_key subtaskId)
        \<and> (\<not> truthy_key (find_parent (subtasks (page w)) subtaskId) \<longrightarrow>
              obj_get (loadingStates (page (respond n Ack v))) (subtask_key subtaskId)
                = Some False
              \<and> \<not> flag (page (respond n Ack v)) (subtask_key subtaskId))
        \<and> (\<forall>p. find_parent (subtasks (page w)) subtaskId = Some p \<and> p \<noteq> [] \<longrightarrow>
              page (respond n Ack v) = page v
              \<and> pending (respond n Ack v)
                  = take n (pending v) @ drop (Suc n) (pending v)
                    @ [(GET_task_subtasks p, In_updateSubtaskStatus_get subtaskId p)]))
   \<and> (\<forall>u m p d. m < length (pending u)
          \<and> pending u ! m = (GET_task_subtasks p, In_updateSubtaskStatus_get subtaskId p) \<longrightarrow>
        obj_get (loadingStates (page (respond m (Subtasks_data d) u))) (subtask_key subtaskId)
          = Some False
        \<and> \<not> flag (page (respond m (Subtasks_data d) u)) (subtask_key subtaskId)
        \<and> obj_get (loadingStates (page (respond m Failure u))) (subtask_key subtaskId)
            = Some False
        \<and> \<not> flag (page (respond m Failure u)) (subtask_key subtaskId)
        \<and> page (step u (Respond m Failure))
            = (render (page u))\<lparr>loadingStates :=
                 obj_set (loadingStates (page u)) (subtask_key subtaskId) False\<rparr>
        \<and> goals (page (respond m Failure u)) = goals (page u)
        \<and> tasks (page (respond m Failure u)) = tasks (page u)
        \<and> subtasks (page (respond m Failure u)) = subtasks (page u)
        \<and> trace (respond m Failure u)
            = trace u @ [Console_error ''Error updating subtask status:'',
                         Alert ''Failed to update subtask status. Please try again.'',
                         Set_flag (subtask_key subtaskId) False])"
proof -
  have task_call: "goals (page (updateTaskStatus w taskId s)) = goals (page w)
      \<and> tasks (page (updateTaskStatus w taskId s)) = tasks (page w)
      \<and> subtasks (page (updateTaskStatus w taskId s)) = subtasks (page w)
      \<and> pending (updateTaskStatus w taskId s)
          = pending w @ [(PUT_task taskId s, In_updateTaskStatus taskId)]"
    by (simp add: updateTaskStatus_call)
  have sub_call: "goals (page (updateSubtaskStatus w subtaskId s)) = goals (page w)
      \<and> tasks (page (updateSubtaskStatus w subtaskId s)) = tasks (page w)
      \<and> subtasks (page (updateSubtaskStatus w subtaskId s)) = subtasks (page w)
      \<and> pending (updateSubtaskStatus w subtaskId s)
          = pending w @ [(PUT_subtask subtaskId s,
                          In_updateSubtaskStatus_put subtaskId (subtasks (page w)))]"
    by (simp add: updateSubtaskStatus_call)
  have task_end: "goals (page (respond n Failure v)) = goals (page v)
        \<and> tasks (page (respond n Failure v)) = tasks (page v)
        \<and> subtasks (page (respond n Failure v)) = subtasks (page v)
        \<and> trace (respond n Failure v)
            = trace v @ [Console_error ''Error updating task status:'',
                         Alert ''Failed to update task status. Please try again.'',
                         Set_flag (task_key taskId) False]
        \<and> page (step v (Respond n Failure))
            = (render (page v))\<lparr>loadingStates :=
                 obj_set (loadingStates (page v)) (task_key taskId) False\<rparr>
        \<and> obj_get (loadingStates (page (respond n Failure v))) (task_key taskId) = Some False
        \<and> \<not> flag (page (respond n Failure v)) (task_key taskId)
        \<and> obj_get (loadingStates (page (respond n Ack v))) (task_key taskId) = Some False
        \<and> \<not> flag (page (respond n Ack v)) (task_key taskId)"
    if a: "n < length (pending v)"
      "pending v ! n = (PUT_task taskId s, In_updateTaskStatus taskId)" for v n
    by (simp add: respond_put_task_failure[OF a] respond_put_task_ack[OF a] obj_get_obj_set
        flag_own step_def render_loadingStates)
  have sub_end: "goals (page (respond n Failure v)) = goals (page v)
        \<and> tasks (page (respond n Failure v)) = tasks (page v)
        \<and> subtasks (page (respond n Failure v)) = subtasks (page v)
        \<and> trace (respond n Failure v)
            = trace v @ [Console_error ''Error updating subtask status:'',
                         Alert ''Failed to update subtask status. Please try again.'',
                         Set_flag (subtask_key subtaskId) False]
        \<and> page (step v (Respond n Failure))
            = (render (page v))\<lparr>loadingStates :=
                 obj_set (loadingStates (page v)) (subtask_key subtaskId) False\<rparr>
        \<and> obj_get (loadingStates (page (respond n Failure v))) (subtask_key subtaskId)
            = Some False
        \<and> \<not> flag (page (respond n Failure v)) (subtask_key subtaskId)
        \<and> (\<not> truthy_key (find_parent (subtasks (page w)) subtaskId) \<longrightarrow>
              obj_get (loadingStates (page (respond n Ack v))) (subtask_key subtaskId)
                = Some False
              \<and> \<not> flag (page (respond n Ack v)) (subtask_key subtaskId))
        \<and> (\<forall>p. find_parent (subtasks (page w)) subtaskId = Some p \<and> p \<noteq> [] \<longrightarrow>
              page (respond n Ack v) = page v
              \<and> pending (respond n Ack v)
                  = take n (pending v) @ drop (Suc n) (pending v)
                    @ [(GET_task_subtasks p, In_updateSubtaskStatus_get subtaskId p)])"
    if a: "n < length (pending v)"
      "pending v ! n = (PUT_subtask subtaskId s,
                        In_updateSubtaskStatus_put subtaskId (subtasks (page w)))" for v n
  proof -
    have 1: "\<not> truthy_key (find_parent (subtasks (page w)) subtaskId) \<longrightarrow>
              obj_get (loadingStates (page (respond n Ack v))) (subtask_key subtaskId)
                = Some False
              \<and> \<not> flag (page (respond n Ack v)) (subtask_key subtaskId)"
      by (simp add: respond_put_subtask_ack_no_parent[OF a] obj_get_obj_set flag_own)
    have 2: "\<forall>p. find_parent (subtasks (page w)) subtaskId = Some p \<and> p \<noteq> [] \<longrightarrow>
              page (respond n Ack v) = page v
              \<and> pending (respond n Ack v)
                  = take n (pending v) @ drop (Suc n) (pending v)
                    @ [(GET_task_subtasks p, In_updateSubtaskStatus_get subtaskId p)]"
      by (auto simp: respond_put_subtask_ack_parent[OF a])
    have 0: "goals (page (respond n Failure v)) = goals (page v)
        \<and> tasks (page (respond n Failure v)) = tasks (page v)
        \<and> subtasks (page (respond n Failure v)) = subtasks (page v)
        \<and> trace (respond n Failure v)
            = trace v @ [Console_error ''Error updating subtask status:'',
                         Alert ''Failed to update subtask status. Please try again.'',
                         Set_flag (subtask_key subtaskId) False]
        \<and> page (step v (Respond n Failure))
            = (render (page v))\<lparr>loadingStates :=
                 obj_set (loadingStates (page v)) (subtask_key subtaskId) False\<rparr>
        \<and> obj_get (loadingStates (page (respond n Failure v))) (subtask_key subtaskId)
            = Some False
        \<and> \<not> flag (page (respond n Failure v)) (subtask_key subtaskId)"
      by (simp add: respond_put_subtask_failure[OF a] obj_get_obj_set flag_own step_def
          render_loadingStates)
    from 0 1 2 show ?thesis
      apply (elim conjE)
      apply (intro conjI)
      apply assumption+
      done
  qed
  have refetch_end: "obj_get (loadingStates (page (respond m (Subtasks_data d) u))) (subtask_key subtaskId)
          = Some False
        \<and> \<not> flag (page (respond m (Subtasks_data d) u)) (subtask_key subtaskId)
        \<and> obj_get (loadingStates (page (respond m Failure u))) (subtask_key subtaskId)
            = Some False
        \<and> \<not> flag (page (respond m Failure u)) (subtask_key subtaskId)
        \<and> page (step u (Respond m Failure))
            = (render (page u))\<lparr>loadingStates :=
                 obj_set (loadingStates (page u)) (subtask_key subtaskId) False\<rparr>
        \<and> goals (page (respond m Failure u)) = goals (page u)
        \<and> tasks (page (respond m Failure u)) = tasks (page u)
        \<and> subtasks (page (respond m Failure u)) = subtasks (page u)
        \<and> trace (respond m Failure u)
            = trace u @ [Console_error ''Error updating subtask status:'',
                         Alert ''Failed to update subtask status. Please try again.'',
                         Set_flag (subtask_key subtaskId) False]"
    if a: "m < length (pending u)"
      "pending u ! m = (GET_task_subtasks p, In_updateSubtaskStatus_get subtaskId p)"
    for u m p d
    by (simp add: respond_refetch_failure[OF a] respond_refetch_data[OF a] obj_get_obj_set
        flag_own step_def render_loadingStates)
  have task_all: "\<forall>v n. n < length (pending v)
          \<and> pending v ! n = (PUT_task taskId s, In_updateTaskStatus taskId) \<longrightarrow>
        goals (page (respond n Failure v)) = goals (page v)
        \<and> tasks (page (respond n Failure v)) = tasks (page v)
        \<and> subtasks (page (respond n Failure v)) = subtasks (page v)
        \<and> trace (respond n Failure v)
            = trace v @ [Console_error ''Error updating task status:'',
                         Alert ''Failed to update task status. Please try again.'',
                         Set_flag (task_key taskId) False]
        \<and> page (step v (Respond n Failure))
            = (render (page v))\<lparr>loadingStates :=
                 obj_set (loadingStates (page v)) (task_key taskId) False\<rparr>
        \<and> obj_get (loadingStates (page (respond n Failure v))) (task_key taskId) = Some False
        \<and> \<not> flag (page (respond n Failure v)) (task_key taskId)
        \<and> obj_get (loadingStates (page (respond n Ack v))) (task_key taskId) = Some False
        \<and> \<not> flag (page (respond n Ack v)) (task_key taskId)"
    by (intro allI impI, elim conjE, rule task_end)
  have sub_all: "\<forall>v n. n < length (pending v)
          \<and> pending v ! n = (PUT_subtask subtaskId s,
                              In_updateSubtaskStatus_put subtaskId (subtasks (page w))) \<longrightarrow>
        goals (page (respond n Failure v)) = goals (page v)
        \<and> tasks (page (respond n Failure v)) = tasks (page v)
        \<and> subtasks (page (respond n Failure v)) = subtasks (page v)
        \<and> trace (respond n Failure v)
            = trace v @ [Console_error ''Error updating subtask status:'',
                         Alert ''Failed to update subtask status. Please try again.'',
                         Set_flag (subtask_key subtaskId) False]
        \<and> page (step v (Respond n Failure))
            = (render (page v))\<lparr>loadingStates :=
                 obj_set (loadingStates (page v)) (subtask_key subtaskId) False\<rparr>
        \<and> obj_get (loadingStates (page (respond n Failure v))) (subtask_key subtaskId)
            = Some False
        \<and> \<not> flag (page (respond n Failure v)) (subtask_key subtaskId)
        \<and> (\<not> truthy_key (find_parent (subtasks (page w)) subtaskId) \<longrightarrow>
              obj_get (loadingStates (page (respond n Ack v))) (subtask_key subtaskId)
                = Some False
              \<and> \<not> flag (page (respond n Ack v)) (subtask_key subtaskId))
        \<and> (\<forall>p. find_parent (subtasks (page w)) subtaskId = Some p \<and> p \<noteq> [] \<longrightarrow>
              page (respond n Ack v) = page v
              \<and> pending (respond n Ack v)
                  = take n (pending v) @ drop (Suc n) (pending v)
                    @ [(GET_task_subtasks p, In_updateSubtaskStatus_get subtaskId p)])"
    by (intro allI impI, elim conjE, rule sub_end)
  have refetch_all: "\<forall>u m p d. m < length (pending u)
          \<and> pending u ! m = (GET_task_subtasks p, In_updateSubtaskStatus_get subtaskId p) \<longrightarrow>
        obj_get (loadingStates (page (respond m (Subtasks_data d) u))) (subtask_key subtaskId)
          = Some False
        \<and> \<not> flag (page (respond m (Subtasks_data d) u)) (subtask_key subtaskId)
        \<and> obj_get (loadingStates (page (respond m Failure u))) (subtask_key subtaskId)
            = Some False
        \<and> \<not> flag (page (respond m Failure u)) (subtask_key subtaskId)
        \<and> page (step u (Respond m Failure))
            = (render (page u))\<lparr>loadingStates :=
                 obj_set (loadingStates (page u)) (subtask_key subtaskId) False\<rparr>
        \<and> goals (page (respond m Failure u)) = goals (page u)
        \<and> tasks (page (respond m Failure u)) = tasks (page u)
        \<and> subtasks (page (respond m Failure u)) = subtasks (page u)
        \<and> trace (respond m Failure u)
            = trace u @ [Console_error ''Error updating subtask status:'',
                         Alert ''Failed to update subtask status. Please try again.'',
                         Set_flag (subtask_key subtaskId) False]"
    by (intro allI impI, elim conjE, rule refetch_end)
  from task_call task_all sub_call sub_all refetch_all show ?thesis
    apply (elim conjE)
    apply (intro conjI)
    apply assumption+
    done
qed

lemma updateTaskStatus_loaded: "updateTaskStatus loaded ''t1'' ''in_progress'' = starting"
  by code_simp

lemma updateSubtaskStatus_both_expanded:
  "updateSubtaskStatus both_expanded ''s1'' ''completed'' = completing"
  by code_simp

lemma updateSubtaskStatus_nameless:
  "updateSubtaskStatus nameless_expanded ''s1'' ''completed'' = nameless_completing"
  by code_simp

lemma find_parent_both_expanded: "find_parent (subtasks (page both_expanded)) ''s1'' = Some ''t1''"
  by code_simp

lemma find_parent_nameless: "find_parent (subtasks (page nameless_expanded)) ''s1'' = Some []"
  by code_simp

lemma pending_starting:
  "0 < length (pending starting)
   \<and> pending starting ! 0 = (PUT_task ''t1'' ''in_progress'', In_updateTaskStatus ''t1'')"
  by (simp add: starting_def)

lemma pending_completing:
  "0 < length (pending completing)
   \<and> pending completing ! 0
       = (PUT_subtask ''s1'' ''completed'',
          In_updateSubtaskStatus_put ''s1'' (subtasks (page both_expanded)))"
  by (simp add: completing_def)

lemma pending_refetching:
  "0 < length (pending refetching)
   \<and> pending refetching ! 0
       = (GET_task_subtasks ''t1'', In_updateSubtaskStatus_get ''s1'' ''t1'')"
  by (simp add: refetching_def)

lemma pending_nameless_completing:
  "0 < length (pending nameless_completing)
   \<and> pending nameless_completing ! 0
       = (PUT_subtask ''s1'' ''completed'',
          In_updateSubtaskStatus_put ''s1'' (subtasks (page nameless_expanded)))"
  by (simp add: nameless_completing_def nameless_expanded_def)

text \<open>
  C4, on runs of the page. Start is clicked on task \<open>t1\<close> of the loaded page and the \<open>PUT\<close>
  fails: the tasks are those of the loaded page and the flag of \<open>t1\<close>, set by the click, is
  cleared. With both tasks expanded, Complete is clicked on subtask \<open>s1\<close> and the \<open>PUT\<close>
  fails: the cache is as it was and the flag of \<open>s1\<close> is cleared; when the \<open>PUT\<close> succeeds
  instead, the refetch for \<open>t1\<close> is outstanding and its failure clears the flag. On the page
  whose one task has the empty id there is no parent to refetch, and the success of the
  \<open>PUT\<close> clears the flag.
\<close>

theorem failed_update_leaves_state_and_clears_flag_witness:
  "run mounted [Respond 0 (Goals_data [demo_goal]),
                Respond 0 (Tasks_data [demo_task2, demo_task])] = loaded
   \<and> run loaded [Click_toggle ''t1'', Respond 0 (Subtasks_data [demo_subtask]),
               Click_toggle ''t2'', Respond 0 (Subtasks_data [demo_subtask2])] = both_expanded
   \<and> run mounted [Respond 0 (Goals_data [demo_goal]),
                Respond 0 (Tasks_data [demo_task2, demo_task]),
                Click_task_action ''t1'' ''start''] = updateTaskStatus loaded ''t1'' ''in_progress''
   \<and> pending (updateTaskStatus loaded ''t1'' ''in_progress'')
       = [(PUT_task ''t1'' ''in_progress'', In_updateTaskStatus ''t1'')]
   \<and> flag (page (updateTaskStatus loaded ''t1'' ''in_progress'')) (task_key ''t1'')
   \<and> tasks (page (respond 0 Failure (updateTaskStatus loaded ''t1'' ''in_progress'')))
       = tasks (page loaded)
   \<and> \<not> flag (page (respond 0 Failure (updateTaskStatus loaded ''t1'' ''in_progress'')))
           (task_key ''t1'')
   \<and> \<not> flag (page (respond 0 Ack (updateTaskStatus loaded ''t1'' ''in_progress'')))
           (task_key ''t1'')
   \<and> run both_expanded [Click_subtask_action ''s1'' ''complete'']
       = updateSubtaskStatus both_expanded ''s1'' ''completed''
   \<and> flag (page (updateSubtaskStatus both_expanded ''s1'' ''completed'')) (subtask_key ''s1'')
   \<and> subtasks (page (respond 0 Failure (updateSubtaskStatus both_expanded ''s1'' ''completed'')))
       = subtasks (page both_expanded)
   \<and> \<not> flag (page (respond 0 Failure (updateSubtaskStatus both_expanded ''s1'' ''completed'')))
           (subtask_key ''s1'')
   \<and> find_parent (subtasks (page both_expanded)) ''s1'' = Some ''t1''
   \<and> respond 0 Ack (updateSubtaskStatus both_expanded ''s1'' ''completed'') = refetching
   \<and> flag (page refetching) (subtask_key ''s1'')
   \<and> pending refetching = [(GET_task_subtasks ''t1'', In_updateSubtaskStatus_get ''s1'' ''t1'')]
   \<and> \<not> flag (page (respond 0 Failure refetching)) (subtask_key ''s1'')
   \<and> subtasks (page (respond 0 Failure refetching)) = subtasks (page both_expanded)
   \<and> \<not> flag (page (respond 0 (Subtasks_data [demo_subtask]) refetching)) (subtask_key ''s1'')
   \<and> \<not> truthy_key (find_parent (subtasks (page nameless_expanded)) ''s1'')
   \<and> \<not> flag (page (respond 0 Ack (updateSubtaskStatus nameless_expanded ''s1'' ''completed'')))
           (subtask_key ''s1'')"
proof -
  note task = failed_update_leaves_state_and_clears_flag[where w = loaded
      and taskId = "''t1''" and s = "''in_progress''"]
  note sub = failed_update_leaves_state_and_clears_flag[where w = both_expanded
      and subtaskId = "''s1''" and s = "''completed''"]
  note nameless = failed_update_leaves_state_and_clears_flag[where w = nameless_expanded
      and subtaskId = "''s1''" and s = "''completed''"]
  have r1: "run mounted [Respond 0 (Goals_data [demo_goal]),
                Respond 0 (Tasks_data [demo_task2, demo_task]),
                Click_task_action ''t1'' ''start''] = updateTaskStatus loaded ''t1'' ''in_progress''"
    by (simp only: run_starting updateTaskStatus_loaded)
  have r2: "run both_expanded [Click_subtask_action ''s1'' ''complete'']
       = updateSubtaskStatus both_expanded ''s1'' ''completed''"
    by (simp only: run_def foldl.simps step_both_expanded_complete
        updateSubtaskStatus_both_expanded)
  have f1: "flag (page starting) (task_key ''t1'')" by code_simp
  have f2: "flag (page completing) (subtask_key ''s1'')" by code_simp
  have f3: "flag (page refetching) (subtask_key ''s1'')" by code_simp
  have before: "tasks (page starting) = tasks (page loaded)"
    "subtasks (page completing) = subtasks (page both_expanded)"
    "subtasks (page refetching) = subtasks (page both_expanded)"
    "pending starting = [(PUT_task ''t1'' ''in_progress'', In_updateTaskStatus ''t1'')]"
    "pending refetching = [(GET_task_subtasks ''t1'', In_updateSubtaskStatus_get ''s1'' ''t1'')]"
    by (simp_all add: starting_def completing_def refetching_def)
  from task have "\<forall>v n. n < length (pending v)
          \<and> pending v ! n = (PUT_task ''t1'' ''in_progress'', In_updateTaskStatus ''t1'') \<longrightarrow>
        tasks (page (respond n Failure v)) = tasks (page v)
        \<and> \<not> flag (page (respond n Failure v)) (task_key ''t1'')
        \<and> \<not> flag (page (respond n Ack v)) (task_key ''t1'')"
    by simp
  from this[rule_format, of 0 starting] pending_starting
  have 1: "tasks (page (respond 0 Failure starting)) = tasks (page starting)
        \<and> \<not> flag (page (respond 0 Failure starting)) (task_key ''t1'')
        \<and> \<not> flag (page (respond 0 Ack starting)) (task_key ''t1'')"
    by simp
  from sub have "\<forall>v n. n < length (pending v)
          \<and> pending v ! n = (PUT_subtask ''s1'' ''completed'',
                In_updateSubtaskStatus_put ''s1'' (subtasks (page both_expanded))) \<longrightarrow>
        subtasks (page (respond n Failure v)) = subtasks (page v)
        \<and> \<not> flag (page (respond n Failure v)) (subtask_key ''s1'')"
    by simp
  from this[rule_format, of 0 completing] pending_completing
  have 2: "subtasks (page (respond 0 Failure completing)) = subtasks (page completing)
        \<and> \<not> flag (page (respond 0 Failure completing)) (subtask_key ''s1'')"
    by simp
  from sub have "\<forall>u m p d. m < length (pending u)
          \<and> pending u ! m = (GET_task_subtasks p, In_updateSubtaskStatus_get ''s1'' p) \<longrightarrow>
        \<not> flag (page (respond m (Subtasks_data d) u)) (subtask_key ''s1'')
        \<and> \<not> flag (page (respond m Failure u)) (subtask_key ''s1'')
        \<and> subtasks (page (respond m Failure u)) = subtasks (page u)"
    by simp
  from this[rule_format, of 0 refetching "''t1''" "[demo_subtask]"] pending_refetching
  have 3: "\<not> flag (page (respond 0 (Subtasks_data [demo_subtask]) refetching)) (subtask_key ''s1'')
        \<and> \<not> flag (page (respond 0 Failure refetching)) (subtask_key ''s1'')
        \<and> subtasks (page (respond 0 Failure refetching)) = subtasks (page refetching)"
    by simp
  have np: "\<not> truthy_key (find_parent (subtasks (page nameless_expanded)) ''s1'')"
    by (simp add: find_parent_nameless truthy_key_def)
  from nameless have "\<forall>v n. n < length (pending v)
          \<and> pending v ! n = (PUT_subtask ''s1'' ''completed'',
                In_updateSubtaskStatus_put ''s1'' (subtasks (page nameless_expanded))) \<longrightarrow>
        (\<not> truthy_key (find_parent (subtasks (page nameless_expanded)) ''s1'') \<longrightarrow>
           \<not> flag (page (respond n Ack v)) (subtask_key ''s1''))"
    by simp
  from this[rule_format, of 0 nameless_completing] pending_nameless_completing np
  have 4: "\<not> flag (page (respond 0 Ack nameless_completing)) (subtask_key ''s1'')"
    by simp
  have 5: "respond 0 Ack completing = refetching"
    by code_simp
  from run_loaded run_both_expanded r1 r2 f1 f2 f3 before 1 2 3 4 5 np find_parent_both_expanded show ?thesis
    by (simp add: updateTaskStatus_loaded updateSubtaskStatus_both_expanded
        updateSubtaskStatus_nameless)
qed

section \<open>The refetch after a subtask update\<close>







text \<open>
  C10: when \<open>updateSubtaskStatus\<close> is called with a subtask id that is in no cached
  collection, it still sets the flag and issues the \<open>PUT\<close>; and when that \<open>PUT\<close> succeeds
  (in whatever state \<open>v\<close> the page then is), the handler requests nothing more, clears
  the flag and leaves every cached subtask collection, and the goals and tasks, as they are.
\<close>

theorem unknown_subtask_no_refetch:
  "(\<forall>k sts. obj_get (subtasks (page w)) k = Some sts
       \<longrightarrow> \<not> list_ex (\<lambda>st. st_id st = subtaskId) sts) \<longrightarrow>
     trace (updateSubtaskStatus w subtaskId s)
       = trace w @ [Set_flag (subtask_key subtaskId) True, Issued (PUT_subtask subtaskId s)]
     \<and> pending (updateSubtaskStatus w subtaskId s)
       = pending w @ [(PUT_subtask subtaskId s,
                       In_updateSubtaskStatus_put subtaskId (subtasks (page w)))]
     \<and> (\<forall>v n. n < length (pending v)
            \<and> pending v ! n = (PUT_subtask subtaskId s,
                                In_updateSubtaskStatus_put subtaskId (subtasks (page w))) \<longrightarrow>
          subtasks (page (respond n Ack v)) = subtasks (page v)
          \<and> goals (page (respond n Ack v)) = goals (page v)
          \<and> tasks (page (respond n Ack v)) = tasks (page v)
          \<and> trace (respond n Ack v) = trace v @ [Set_flag (subtask_key subtaskId) False]
          \<and> pending (respond n Ack v) = take n (pending v) @ drop (Suc n) (pending v))"
proof (intro impI conjI allI; (elim conjE)?)
  show "trace (updateSubtaskStatus w subtaskId s)
       = trace w @ [Set_flag (subtask_key subtaskId) True, Issued (PUT_subtask subtaskId s)]"
    by (rule updateSubtaskStatus_trace)
  show "pending (updateSubtaskStatus w subtaskId s)
       = pending w @ [(PUT_subtask subtaskId s,
                       In_updateSubtaskStatus_put subtaskId (subtasks (page w)))]"
    by (simp add: updateSubtaskStatus_def)
next
  fix v :: tworld and n
  assume none: "\<forall>k sts. obj_get (subtasks (page w)) k = Some sts
       \<longrightarrow> \<not> list_ex (\<lambda>st. st_id st = subtaskId) sts"
    and a: "n < length (pending v)"
      "pending v ! n = (PUT_subtask subtaskId s,
                        In_updateSubtaskStatus_put subtaskId (subtasks (page w)))"
  from none have "find_parent (subtasks (page w)) subtaskId = None"
    by (simp add: find_parent_None)
  then have "\<not> truthy_key (find_parent (subtasks (page w)) subtaskId)"
    by (simp add: truthy_key_def)
  note r = respond_put_subtask_ack_no_parent[OF a this]
  show "subtasks (page (respond n Ack v)) = subtasks (page v)"
    "goals (page (respond n Ack v)) = goals (page v)"
    "tasks (page (respond n Ack v)) = tasks (page v)"
    "trace (respond n Ack v) = trace v @ [Set_flag (subtask_key subtaskId) False]"
    "pending (respond n Ack v) = take n (pending v) @ drop (Suc n) (pending v)"
    by (simp_all add: r)
qed

text \<open>
  C10, at a concrete state: with the subtasks of \<open>t1\<close> cached, the status of a subtask
  \<open>s9\<close> that is not among them is updated; the \<open>PUT\<close> is issued, and on its success only
  the flag is written.
\<close>

theorem unknown_subtask_no_refetch_witness:
  "\<not> list_ex (\<lambda>st. st_id st = ''s9'') [demo_subtask]
   \<and> subtasks (page expanded) = [(''t1'', [demo_subtask])]
   \<and> pending (updateSubtaskStatus expanded ''s9'' ''completed'')
       = [(PUT_subtask ''s9'' ''completed'', In_updateSubtaskStatus_put ''s9'' (subtasks (page expanded)))]
   \<and> subtasks (page (respond 0 Ack (updateSubtaskStatus expanded ''s9'' ''completed'')))
       = subtasks (page (updateSubtaskStatus expanded ''s9'' ''completed''))
   \<and> trace (respond 0 Ack (updateSubtaskStatus expanded ''s9'' ''completed''))
       = trace (updateSubtaskStatus expanded ''s9'' ''completed'') @ [Set_flag (subtask_key ''s9'') False]
   \<and> pending (respond 0 Ack (updateSubtaskStatus expanded ''s9'' ''completed'')) = []"
proof -
  have e: "subtasks (page expanded) = [(''t1'', [demo_subtask])]" "pending expanded = []"
    by (simp_all add: expanded_def)
  have n: "\<not> list_ex (\<lambda>st. st_id st = ''s9'') [demo_subtask]"
    by (simp add: demo_subtask_def)
  have h: "\<forall>k sts. obj_get (subtasks (page expanded)) k = Some sts
       \<longrightarrow> \<not> list_ex (\<lambda>st. st_id st = ''s9'') sts"
    by (simp add: e obj_get_def demo_subtask_def)
  note all = unknown_subtask_no_refetch[where w = expanded and subtaskId = "''s9''"
      and s = "''completed''"]
  from all h have p: "pending (updateSubtaskStatus expanded ''s9'' ''completed'')
       = [(PUT_subtask ''s9'' ''completed'', In_updateSubtaskStatus_put ''s9'' (subtasks (page expanded)))]"
    by (simp add: e)
  from all h have "\<forall>v n. n < length (pending v)
            \<and> pending v ! n = (PUT_subtask ''s9'' ''completed'',
                                In_updateSubtaskStatus_put ''s9'' (subtasks (page expanded))) \<longrightarrow>
          subtasks (page (respond n Ack v)) = subtasks (page v)
          \<and> trace (respond n Ack v) = trace v @ [Set_flag (subtask_key ''s9'') False]
          \<and> pending (respond n Ack v) = take n (pending v) @ drop (Suc n) (pending v)"
    by simp
  from this[rule_format, of 0 "updateSubtaskStatus expanded ''s9'' ''completed''"] p
  have "subtasks (page (respond 0 Ack (updateSubtaskStatus expanded ''s9'' ''completed'')))
       = subtasks (page (updateSubtaskStatus expanded ''s9'' ''completed''))
   \<and> trace (respond 0 Ack (updateSubtaskStatus expanded ''s9'' ''completed''))
       = trace (updateSubtaskStatus expanded ''s9'' ''completed'') @ [Set_flag (subtask_key ''s9'') False]
   \<and> pending (respond 0 Ack (updateSubtaskStatus expanded ''s9'' ''completed'')) = []"
    by simp
  with n e p show ?thesis by simp
qed

section \<open>Failures of reads and of mutations\<close>

text \<open>
  C9 (as the code has it): a failed read is written to the console and to nothing else;
  no alert is shown and no request is issued again.

  \<^item> Expanding a task that is not expanded and whose cache lookup gives \<open>undefined\<close>
    requests its subtasks, the handler holding the set of expanded tasks of the click plus
    the task. When the request fails, in whatever state \<open>v\<close> the page then is, the page is
    \<open>v\<close> with that set as its set of expanded tasks: the goal, task and subtask collections
    and the flags are those of \<open>v\<close>, while expansions and collapses made since the click
    are undone.
  \<^item> \<open>fetchTasksData\<close> requests the goals and changes nothing. When that request fails, the
    page only stops loading. When it succeeds with goals \<open>g # gs\<close>, the goals are replaced
    at once and the tasks of \<open>g\<close> are requested; when the request of the tasks of a goal
    then fails, the page only stops loading: the new goals stay, with the old tasks.
  \<^item> A failed mutation (the \<open>PUT\<close> of a task or a subtask, or the refetch that follows the
    latter) shows an alert.
\<close>

theorem read_failures_only_logged:
  "(taskId \<notin> expandedTasks (page w) \<and> obj_lookup (subtasks (page w)) taskId = Undefined \<longrightarrow>
      page (toggleTaskExpansion w taskId) = page w
      \<and> pending (toggleTaskExpansion w taskId)
          = pending w @ [(GET_task_subtasks taskId,
                          In_toggleTaskExpansion taskId (insert taskId (expandedTasks (page w))))]
      \<and> (\<forall>v n. n < length (pending v)
            \<and> pending v ! n = (GET_task_subtasks taskId,
                  In_toggleTaskExpansion taskId (insert taskId (expandedTasks (page w)))) \<longrightarrow>
           page (respond n Failure v)
             = (page v)\<lparr>expandedTasks := insert taskId (expandedTasks (page w))\<rparr>
           \<and> trace (respond n Failure v) = trace v @ [Console_error ''Error fetching subtasks:'']
           \<and> alerts (respond n Failure v) = alerts v
           \<and> requests (respond n Failure v) = requests v
           \<and> pending (respond n Failure v) = take n (pending v) @ drop (Suc n) (pending v)))
   \<and> page (fetchTasksData w) = page w
   \<and> pending (fetchTasksData w) = pending w @ [(GET_goals, In_fetchTasksData_goals)]
   \<and> (\<forall>v n. n < length (pending v) \<and> pending v ! n = (GET_goals, In_fetchTasksData_goals) \<longrightarrow>
        page (respond n Failure v) = (page v)\<lparr>loading := False\<rparr>
        \<and> trace (respond n Failure v) = trace v @ [Console_error ''Error fetching tasks data:'']
        \<and> alerts (respond n Failure v) = alerts v
        \<and> requests (respond n Failure v) = requests v
        \<and> pending (respond n Failure v) = take n (pending v) @ drop (Suc n) (pending v)
        \<and> (\<forall>g gs. page (respond n (Goals_data (g # gs)) v) = (page v)\<lparr>goals := g # gs\<rparr>
              \<and> pending (respond n (Goals_data (g # gs)) v)
                  = take n (pending v) @ drop (Suc n) (pending v)
                    @ [(GET_goal_tasks (g_id g), In_fetchTasksData_tasks (g # gs) empty_dict)]))
   \<and> (\<forall>u m goalId gs tasksData. m < length (pending u)
          \<and> pending u ! m = (GET_goal_tasks goalId, In_fetchTasksData_tasks gs tasksData) \<longrightarrow>
        page (respond m Failure u) = (page u)\<lparr>loading := False\<rparr>
        \<and> trace (respond m Failure u) = trace u @ [Console_error ''Error fetching tasks data:'']
        \<and> alerts (respond m Failure u) = alerts u
        \<and> requests (respond m Failure u) = requests u
        \<and> pending (respond m Failure u) = take m (pending u) @ drop (Suc m) (pending u))
   \<and> (\<forall>v n s. n < length (pending v)
          \<and> pending v ! n = (PUT_task taskId s, In_updateTaskStatus taskId) \<longrightarrow>
        alerts (respond n Failure v)
          = alerts v @ [''Failed to update task status. Please try again.''])
   \<and> (\<forall>v n s cache. n < length (pending v)
          \<and> pending v ! n = (PUT_subtask subtaskId s, In_updateSubtaskStatus_put subtaskId cache)
        \<longrightarrow>
        alerts (respond n Failure v)
          = alerts v @ [''Failed to update subtask status. Please try again.''])
   \<and> (\<forall>v n p. n < length (pending v)
          \<and> pending v ! n = (GET_task_subtasks p, In_updateSubtaskStatus_get subtaskId p) \<longrightarrow>
        alerts (respond n Failure v)
          = alerts v @ [''Failed to update subtask status. Please try again.''])"
proof -
  have sub: "page (respond n Failure v)
             = (page v)\<lparr>expandedTasks := ne\<rparr>
           \<and> trace (respond n Failure v) = trace v @ [Console_error ''Error fetching subtasks:'']
           \<and> alerts (respond n Failure v) = alerts v
           \<and> requests (respond n Failure v) = requests v
           \<and> pending (respond n Failure v) = take n (pending v) @ drop (Suc n) (pending v)"
    if a: "n < length (pending v)"
      "pending v ! n = (GET_task_subtasks taskId, In_toggleTaskExpansion taskId ne)"
    for v n ne
    by (simp add: respond_fetch_subtasks_failure[OF a] alerts_def requests_def)
  have toggle: "page (toggleTaskExpansion w taskId) = page w
      \<and> pending (toggleTaskExpansion w taskId)
          = pending w @ [(GET_task_subtasks taskId,
                          In_toggleTaskExpansion taskId (insert taskId (expandedTasks (page w))))]
      \<and> (\<forall>v n. n < length (pending v)
            \<and> pending v ! n = (GET_task_subtasks taskId,
                  In_toggleTaskExpansion taskId (insert taskId (expandedTasks (page w)))) \<longrightarrow>
           page (respond n Failure v)
             = (page v)\<lparr>expandedTasks := insert taskId (expandedTasks (page w))\<rparr>
           \<and> trace (respond n Failure v) = trace v @ [Console_error ''Error fetching subtasks:'']
           \<and> alerts (respond n Failure v) = alerts v
           \<and> requests (respond n Failure v) = requests v
           \<and> pending (respond n Failure v) = take n (pending v) @ drop (Suc n) (pending v))"
    if h: "taskId \<notin> expandedTasks (page w) \<and> obj_lookup (subtasks (page w)) taskId = Undefined"
  proof (intro conjI)
    from h have t: "toggleTaskExpansion w taskId
     = issue (GET_task_subtasks taskId)
         (In_toggleTaskExpansion taskId (insert taskId (expandedTasks (page w)))) w"
      by (simp add: toggle_uncached_fetch)
    show "page (toggleTaskExpansion w taskId) = page w"
      by (simp add: t)
    show "pending (toggleTaskExpansion w taskId)
          = pending w @ [(GET_task_subtasks taskId,
                          In_toggleTaskExpansion taskId (insert taskId (expandedTasks (page w))))]"
      by (simp add: t)
    show "\<forall>v n. n < length (pending v)
            \<and> pending v ! n = (GET_task_subtasks taskId,
                  In_toggleTaskExpansion taskId (insert taskId (expandedTasks (page w)))) \<longrightarrow>
           page (respond n Failure v)
             = (page v)\<lparr>expandedTasks := insert taskId (expandedTasks (page w))\<rparr>
           \<and> trace (respond n Failure v) = trace v @ [Console_error ''Error fetching subtasks:'']
           \<and> alerts (respond n Failure v) = alerts v
           \<and> requests (respond n Failure v) = requests v
           \<and> pending (respond n Failure v) = take n (pending v) @ drop (Suc n) (pending v)"
      by (intro allI impI, elim conjE, rule sub)
  qed
  have goals_all: "\<forall>v n. n < length (pending v) \<and> pending v ! n = (GET_goals, In_fetchTasksData_goals) \<longrightarrow>
        page (respond n Failure v) = (page v)\<lparr>loading := False\<rparr>
        \<and> trace (respond n Failure v) = trace v @ [Console_error ''Error fetching tasks data:'']
        \<and> alerts (respond n Failure v) = alerts v
        \<and> requests (respond n Failure v) = requests v
        \<and> pending (respond n Failure v) = take n (pending v) @ drop (Suc n) (pending v)
        \<and> (\<forall>g gs. page (respond n (Goals_data (g # gs)) v) = (page v)\<lparr>goals := g # gs\<rparr>
              \<and> pending (respond n (Goals_data (g # gs)) v)
                  = take n (pending v) @ drop (Suc n) (pending v)
                    @ [(GET_goal_tasks (g_id g), In_fetchTasksData_tasks (g # gs) empty_dict)])"
  proof (intro allI impI, elim conjE)
    fix v :: tworld and n
    assume a: "n < length (pending v)" "pending v ! n = (GET_goals, In_fetchTasksData_goals)"
    show "page (respond n Failure v) = (page v)\<lparr>loading := False\<rparr>
        \<and> trace (respond n Failure v) = trace v @ [Console_error ''Error fetching tasks data:'']
        \<and> alerts (respond n Failure v) = alerts v
        \<and> requests (respond n Failure v) = requests v
        \<and> pending (respond n Failure v) = take n (pending v) @ drop (Suc n) (pending v)
        \<and> (\<forall>g gs. page (respond n (Goals_data (g # gs)) v) = (page v)\<lparr>goals := g # gs\<rparr>
              \<and> pending (respond n (Goals_data (g # gs)) v)
                  = take n (pending v) @ drop (Suc n) (pending v)
                    @ [(GET_goal_tasks (g_id g), In_fetchTasksData_tasks (g # gs) empty_dict)])"
      by (simp add: respond_fetch_goals_failure[OF a] respond_fetch_goals_data[OF a]
          alerts_def requests_def)
  qed
  have tasks_all: "\<forall>u m goalId gs tasksData. m < length (pending u)
          \<and> pending u ! m = (GET_goal_tasks goalId, In_fetchTasksData_tasks gs tasksData) \<longrightarrow>
        page (respond m Failure u) = (page u)\<lparr>loading := False\<rparr>
        \<and> trace (respond m Failure u) = trace u @ [Console_error ''Error fetching tasks data:'']
        \<and> alerts (respond m Failure u) = alerts u
        \<and> requests (respond m Failure u) = requests u
        \<and> pending (respond m Failure u) = take m (pending u) @ drop (Suc m) (pending u)"
  proof (intro allI impI, elim conjE)
    fix u :: tworld and m goalId gs tasksData
    assume a: "m < length (pending u)"
      "pending u ! m = (GET_goal_tasks goalId, In_fetchTasksData_tasks gs tasksData)"
    show "page (respond m Failure u) = (page u)\<lparr>loading := False\<rparr>
        \<and> trace (respond m Failure u) = trace u @ [Console_error ''Error fetching tasks data:'']
        \<and> alerts (respond m Failure u) = alerts u
        \<and> requests (respond m Failure u) = requests u
        \<and> pending (respond m Failure u) = take m (pending u) @ drop (Suc m) (pending u)"
      by (simp add: respond_fetch_tasks_failure[OF a] alerts_def requests_def)
  qed
  have put_task: "\<forall>v n s. n < length (pending v)
          \<and> pending v ! n = (PUT_task taskId s, In_updateTaskStatus taskId) \<longrightarrow>
        alerts (respond n Failure v)
          = alerts v @ [''Failed to update task status. Please try again.'']"
  proof (intro allI impI, elim conjE)
    fix v :: tworld and n s
    assume a: "n < length (pending v)"
      "pending v ! n = (PUT_task taskId s, In_updateTaskStatus taskId)"
    show "alerts (respond n Failure v)
          = alerts v @ [''Failed to update task status. Please try again.'']"
      by (simp add: respond_put_task_failure[OF a] alerts_def)
  qed
  have put_subtask: "\<forall>v n s cache. n < length (pending v)
          \<and> pending v ! n = (PUT_subtask subtaskId s, In_updateSubtaskStatus_put subtaskId cache)
        \<longrightarrow>
        alerts (respond n Failure v)
          = alerts v @ [''Failed to update subtask status. Please try again.'']"
  proof (intro allI impI, elim conjE)
    fix v :: tworld and n s cache
    assume a: "n < length (pending v)"
      "pending v ! n = (PUT_subtask subtaskId s, In_updateSubtaskStatus_put subtaskId cache)"
    show "alerts (respond n Failure v)
          = alerts v @ [''Failed to update subtask status. Please try again.'']"
      by (simp add: respond_put_subtask_failure[OF a] alerts_def)
  qed
  have refetch: "\<forall>v n p. n < length (pending v)
          \<and> pending v ! n = (GET_task_subtasks p, In_updateSubtaskStatus_get subtaskId p) \<longrightarrow>
        alerts (respond n Failure v)
          = alerts v @ [''Failed to update subtask status. Please try again.'']"
  proof (intro allI impI, elim conjE)
    fix v :: tworld and n p
    assume a: "n < length (pending v)"
      "pending v ! n = (GET_task_subtasks p, In_updateSubtaskStatus_get subtaskId p)"
    show "alerts (respond n Failure v)
          = alerts v @ [''Failed to update subtask status. Please try again.'']"
      by (simp add: respond_refetch_failure[OF a] alerts_def)
  qed
  have call: "page (fetchTasksData w) = page w"
    "pending (fetchTasksData w) = pending w @ [(GET_goals, In_fetchTasksData_goals)]"
    by (simp_all add: fetchTasksData_call)
  show ?thesis
    apply (intro conjI)
           apply (intro impI, erule toggle)
          apply (rule call)
         apply (rule call)
        apply (rule goals_all)
       apply (rule tasks_all)
      apply (rule put_task)
     apply (rule put_subtask)
    apply (rule refetch)
    done
qed

lemma toggle_loaded_hyp:
  "''t1'' \<notin> expandedTasks (page loaded) \<and> obj_lookup (subtasks (page loaded)) ''t1'' = Undefined"
  by (simp add: loaded_def obj_lookup_def object_prototype_keys_def)

lemma pending_expanding:
  "pending expanding
     = [(GET_task_subtasks ''t1'',
         In_toggleTaskExpansion ''t1'' (insert ''t1'' (expandedTasks (page loaded))))]"
  by (simp add: expanding_def loaded_def)

lemma pending_refreshing: "pending refreshing = [(GET_goals, In_fetchTasksData_goals)]"
  by (simp add: refreshing_def)

text \<open>
  C9, on runs of the page. The fetch of the subtasks of \<open>t1\<close> fails while \<open>t1\<close> is being
  expanded: \<open>t1\<close> is shown expanded, with no alert. The refresh of the goals after a
  successful update of \<open>t1\<close> fails: the page only stops loading (it was not loading). The
  refresh gets another goal and the fetch of its tasks fails: the goals are the new ones,
  the tasks the old ones. The \<open>PUT\<close> for \<open>t1\<close> fails: an alert is shown.
\<close>

theorem read_failures_only_logged_witness:
  "run mounted [Respond 0 (Goals_data [demo_goal]),
                Respond 0 (Tasks_data [demo_task2, demo_task])] = loaded
   \<and> run loaded [Click_toggle ''t1''] = toggleTaskExpansion loaded ''t1''
   \<and> page (respond 0 Failure (toggleTaskExpansion loaded ''t1''))
       = (page loaded)\<lparr>expandedTasks := {''t1''}\<rparr>
   \<and> trace (respond 0 Failure (toggleTaskExpansion loaded ''t1''))
       = trace (toggleTaskExpansion loaded ''t1'') @ [Console_error ''Error fetching subtasks:'']
   \<and> alerts (respond 0 Failure (toggleTaskExpansion loaded ''t1'')) = []
   \<and> run loaded [Click_task_action ''t1'' ''start'', Respond 0 Ack] = refreshing
   \<and> page (respond 0 Failure refreshing) = (page refreshing)\<lparr>loading := False\<rparr>
   \<and> alerts (respond 0 Failure refreshing) = alerts refreshing
   \<and> goals (page (respond 0 Failure (respond 0 (Goals_data [other_goal]) refreshing)))
       = [other_goal]
   \<and> tasks (page (respond 0 Failure (respond 0 (Goals_data [other_goal]) refreshing)))
       = tasks (page loaded)
   \<and> alerts (respond 0 Failure (respond 0 (Goals_data [other_goal]) refreshing)) = []
   \<and> alerts (respond 0 Failure starting)
       = alerts starting @ [''Failed to update task status. Please try again.'']"
proof -
  note all = read_failures_only_logged[where w = loaded and taskId = "''t1''"]
  have r: "run loaded [Click_toggle ''t1''] = toggleTaskExpansion loaded ''t1''"
    by (simp only: run_def foldl.simps step_loaded_toggle toggle_loaded)
  from all toggle_loaded_hyp have "\<forall>v n. n < length (pending v)
            \<and> pending v ! n = (GET_task_subtasks ''t1'',
                  In_toggleTaskExpansion ''t1'' (insert ''t1'' (expandedTasks (page loaded)))) \<longrightarrow>
           page (respond n Failure v)
             = (page v)\<lparr>expandedTasks := insert ''t1'' (expandedTasks (page loaded))\<rparr>
           \<and> trace (respond n Failure v) = trace v @ [Console_error ''Error fetching subtasks:'']
           \<and> alerts (respond n Failure v) = alerts v"
    by simp
  from this[rule_format, of 0 expanding] pending_expanding
  have 1: "page (respond 0 Failure expanding)
             = (page expanding)\<lparr>expandedTasks := insert ''t1'' (expandedTasks (page loaded))\<rparr>
           \<and> trace (respond 0 Failure expanding)
               = trace expanding @ [Console_error ''Error fetching subtasks:'']
           \<and> alerts (respond 0 Failure expanding) = alerts expanding"
    by simp
  from all have g: "\<forall>v n. n < length (pending v)
          \<and> pending v ! n = (GET_goals, In_fetchTasksData_goals) \<longrightarrow>
        page (respond n Failure v) = (page v)\<lparr>loading := False\<rparr>
        \<and> alerts (respond n Failure v) = alerts v
        \<and> (\<forall>g gs. page (respond n (Goals_data (g # gs)) v) = (page v)\<lparr>goals := g # gs\<rparr>
              \<and> pending (respond n (Goals_data (g # gs)) v)
                  = take n (pending v) @ drop (Suc n) (pending v)
                    @ [(GET_goal_tasks (g_id g), In_fetchTasksData_tasks (g # gs) empty_dict)])"
    by simp
  from g[rule_format, of 0 refreshing] pending_refreshing
  have 2: "page (respond 0 Failure refreshing) = (page refreshing)\<lparr>loading := False\<rparr>
        \<and> alerts (respond 0 Failure refreshing) = alerts refreshing"
    and 3: "\<forall>g gs. page (respond 0 (Goals_data (g # gs)) refreshing)
                = (page refreshing)\<lparr>goals := g # gs\<rparr>
              \<and> pending (respond 0 (Goals_data (g # gs)) refreshing)
                  = [(GET_goal_tasks (g_id g), In_fetchTasksData_tasks (g # gs) empty_dict)]"
    by simp_all
  from 3[rule_format, of other_goal "[]"]
  have 4: "page (respond 0 (Goals_data [other_goal]) refreshing)
                = (page refreshing)\<lparr>goals := [other_goal]\<rparr>"
    and 5: "pending (respond 0 (Goals_data [other_goal]) refreshing)
                  = [(GET_goal_tasks (g_id other_goal),
                      In_fetchTasksData_tasks [other_goal] empty_dict)]"
    by simp_all
  from all have "\<forall>u m goalId gs tasksData. m < length (pending u)
          \<and> pending u ! m = (GET_goal_tasks goalId, In_fetchTasksData_tasks gs tasksData) \<longrightarrow>
        page (respond m Failure u) = (page u)\<lparr>loading := False\<rparr>
        \<and> alerts (respond m Failure u) = alerts u"
    by simp
  from this[rule_format, of 0 "respond 0 (Goals_data [other_goal]) refreshing"
      "g_id other_goal" "[other_goal]" empty_dict] 5
  have 6: "page (respond 0 Failure (respond 0 (Goals_data [other_goal]) refreshing))
        = (page (respond 0 (Goals_data [other_goal]) refreshing))\<lparr>loading := False\<rparr>
        \<and> alerts (respond 0 Failure (respond 0 (Goals_data [other_goal]) refreshing))
            = alerts (respond 0 (Goals_data [other_goal]) refreshing)"
    by simp
  from all have "\<forall>v n s. n < length (pending v)
          \<and> pending v ! n = (PUT_task ''t1'' s, In_updateTaskStatus ''t1'') \<longrightarrow>
        alerts (respond n Failure v)
          = alerts v @ [''Failed to update task status. Please try again.'']"
    by simp
  from this[rule_format, of 0 starting "''in_progress''"] pending_starting
  have 7: "alerts (respond 0 Failure starting)
       = alerts starting @ [''Failed to update task status. Please try again.'']"
    by simp
  have 8: "alerts expanding = []" "alerts (respond 0 (Goals_data [other_goal]) refreshing) = []"
    by code_simp+
  have 9: "(page expanding)\<lparr>expandedTasks := insert ''t1'' (expandedTasks (page loaded))\<rparr>
      = (page loaded)\<lparr>expandedTasks := {''t1''}\<rparr>"
    "tasks (page refreshing) = tasks (page loaded)"
    by (simp_all add: expanding_def loaded_def refreshing_def)
  from run_loaded r 1 2 4 6 7 8 9 run_refreshing show ?thesis
    by (simp add: toggle_loaded)
qed

text \<open>
  C9 (as the specification states it) fails on the read paths. A task is started and the
  refresh of the goals that follows the successful \<open>PUT\<close> fails: the page after the failure
  and its render is exactly the page before it, and no alert was ever shown; nothing the
  user can see tells of the failure. And when the first load of the goals fails, the page
  is the one a successful load of an empty goal list gives.
\<close>

theorem failed_read_is_invisible:
  "page (run mounted [Respond 0 (Goals_data [demo_goal]),
                      Respond 0 (Tasks_data [demo_task2, demo_task]),
                      Click_task_action ''t1'' ''start'', Respond 0 Ack, Respond 0 Failure])
     = page (run mounted [Respond 0 (Goals_data [demo_goal]),
                          Respond 0 (Tasks_data [demo_task2, demo_task]),
                          Click_task_action ''t1'' ''start'', Respond 0 Ack])
   \<and> alerts (run mounted [Respond 0 (Goals_data [demo_goal]),
                          Respond 0 (Tasks_data [demo_task2, demo_task]),
                          Click_task_action ''t1'' ''start'', Respond 0 Ack, Respond 0 Failure])
       = []
   \<and> trace (run mounted [Respond 0 (Goals_data [demo_goal]),
                         Respond 0 (Tasks_data [demo_task2, demo_task]),
                         Click_task_action ''t1'' ''start'', Respond 0 Ack, Respond 0 Failure])
       = trace (run mounted [Respond 0 (Goals_data [demo_goal]),
                             Respond 0 (Tasks_data [demo_task2, demo_task]),
                             Click_task_action ''t1'' ''start'', Respond 0 Ack])
         @ [Console_error ''Error fetching tasks data:'']
   \<and> page (run mounted [Respond 0 Failure]) = page (run mounted [Respond 0 (Goals_data [])])
   \<and> alerts (run mounted [Respond 0 Failure]) = []"
proof -
  have a: "run mounted [Respond 0 (Goals_data [demo_goal]),
                       Respond 0 (Tasks_data [demo_task2, demo_task]),
                       Click_task_action ''t1'' ''start'', Respond 0 Ack] = refreshing"
    by (simp only: run_def foldl.simps step_mounted_goals step_tasks_loaded step_loaded_start
        step_starting_ack)
  have b: "run mounted [Respond 0 (Goals_data [demo_goal]),
                       Respond 0 (Tasks_data [demo_task2, demo_task]),
                       Click_task_action ''t1'' ''start'', Respond 0 Ack, Respond 0 Failure]
             = step refreshing (Respond 0 Failure)"
    by (simp only: run_def foldl.simps step_mounted_goals step_tasks_loaded step_loaded_start
        step_starting_ack)
  have c: "run mounted [Respond 0 Failure] = step mounted (Respond 0 Failure)"
    "run mounted [Respond 0 (Goals_data [])] = step mounted (Respond 0 (Goals_data []))"
    by (simp_all only: run_def foldl.simps)
  have "page (step refreshing (Respond 0 Failure)) = page refreshing"
    by code_simp
  moreover have "alerts (step refreshing (Respond 0 Failure)) = []"
    by code_simp
  moreover have "trace (step refreshing (Respond 0 Failure))
       = trace refreshing @ [Console_error ''Error fetching tasks data:'']"
    by code_simp
  moreover have "page (step mounted (Respond 0 Failure))
      = page (step mounted (Respond 0 (Goals_data [])))"
    by code_simp
  moreover have "alerts (step mounted (Respond 0 Failure)) = []"
    by code_simp
  ultimately show ?thesis
    by (simp only: a b c simp_thms)
qed

section \<open>Calendar arithmetic\<close>

declare year_search.simps [simp del] blank_cells.simps [simp del] day_cells.simps [simp del]


lemma succ_div:
  fixes a k :: int
  assumes "1 < k"
  shows "(a + 1) div k = a div k + (if (a + 1) mod k = 0 then 1 else 0)"
proof -
  have r: "0 \<le> a mod k" "a mod k < k" using assms by simp_all
  have "(a + 1) div k = a div k + (a mod k + 1) div k"
    using assms by (subst div_add1_eq) (simp add: div_pos_pos_trivial mod_pos_pos_trivial)
  moreover have "(a + 1) mod k = (a mod k + 1) mod k"
    by (simp add: mod_add_left_eq)
  moreover have "(a mod k + 1) div k = (if (a mod k + 1) mod k = 0 then 1 else 0)"
  proof (cases "a mod k + 1 = k")
    case True
    then show ?thesis using assms by simp
  next
    case False
    with r have "a mod k + 1 < k" by simp
    with r show ?thesis by (simp add: div_pos_pos_trivial mod_pos_pos_trivial)
  qed
  ultimately show ?thesis by simp
qed

lemma mod_shift:
  fixes y c k :: int
  assumes "c mod k = 0"
  shows "(y - c) mod k = y mod k"
proof -
  have "(y - c) mod k = (y - c mod k) mod k" by (simp add: mod_diff_right_eq)
  with assms show ?thesis by simp
qed

lemma leap_divisors:
  fixes y :: int
  shows "y mod 100 = 0 \<Longrightarrow> y mod 4 = 0" and "y mod 400 = 0 \<Longrightarrow> y mod 100 = 0"
proof -
  have "(4::int) dvd 100" "(100::int) dvd 400" by simp_all
  then show "y mod 100 = 0 \<Longrightarrow> y mod 4 = 0" "y mod 400 = 0 \<Longrightarrow> y mod 100 = 0"
    by (meson dvd_trans mod_eq_0_iff_dvd)+
qed

lemma DayFromYear_next: "DayFromYear (y + 1) = DayFromYear y + DaysInYear y"
proof -
  have 4: "(y + 1 - 1969) div 4 = (y - 1969) div 4 + (if y mod 4 = 0 then 1 else 0)"
    using succ_div[of 4 "y - 1969"] mod_shift[of 1968 4 y] by (simp add: algebra_simps)
  have 100: "(y + 1 - 1901) div 100 = (y - 1901) div 100 + (if y mod 100 = 0 then 1 else 0)"
    using succ_div[of 100 "y - 1901"] mod_shift[of 1900 100 y] by (simp add: algebra_simps)
  have 400: "(y + 1 - 1601) div 400 = (y - 1601) div 400 + (if y mod 400 = 0 then 1 else 0)"
    using succ_div[of 400 "y - 1601"] mod_shift[of 1600 400 y] by (simp add: algebra_simps)
  show ?thesis
    unfolding DayFromYear_def DaysInYear_def using leap_divisors[of y]
    by (simp only: 4 100 400) (auto simp: algebra_simps)
qed

lemma DaysInYear_bounds: "365 \<le> DaysInYear y" "DaysInYear y \<le> 366"
  by (simp_all add: DaysInYear_def)

lemma DayFromYear_mono_nat: "DayFromYear y \<le> DayFromYear (y + int n)"
proof (induction n)
  case 0
  then show ?case by simp
next
  case (Suc n)
  have "DayFromYear (y + int (Suc n)) = DayFromYear (y + int n) + DaysInYear (y + int n)"
    using DayFromYear_next[of "y + int n"] by (simp add: algebra_simps)
  with Suc DaysInYear_bounds(1)[of "y + int n"] show ?case by simp
qed

lemma DayFromYear_mono: "y \<le> y' \<Longrightarrow> DayFromYear y \<le> DayFromYear y'"
  using DayFromYear_mono_nat[of y "nat (y' - y)"] by simp

lemma DayFromYear_strict: "y < y' \<Longrightarrow> DayFromYear y < DayFromYear y'"
proof -
  assume "y < y'"
  then have "DayFromYear (y + 1) \<le> DayFromYear y'" by (intro DayFromYear_mono) simp
  with DayFromYear_next[of y] DaysInYear_bounds(1)[of y] show ?thesis by simp
qed


lemma year_search_bounds:
  "DayFromYear y \<le> d \<Longrightarrow>
     DayFromYear (year_search d y) \<le> d \<and> d < DayFromYear (year_search d y + 1)"
proof (induction d y rule: year_search.induct)
  case (1 d y)
  show ?case
  proof (cases "DayFromYear (y + 1) \<le> d")
    case True
    with 1 show ?thesis by (subst (1 2) year_search.simps) simp
  next
    case False
    with 1 show ?thesis by (subst (1 2) year_search.simps) simp
  qed
qed

lemma DayFromYear_1970: "DayFromYear 1970 = 0"
  by (simp add: DayFromYear_def)

lemma DayFromYear_after: "DayFromYear (1970 + int n) \<le> 366 * int n"
proof (induction n)
  case 0
  then show ?case by (simp add: DayFromYear_1970)
next
  case (Suc n)
  have "DayFromYear (1970 + int (Suc n)) = DayFromYear (1970 + int n) + DaysInYear (1970 + int n)"
    using DayFromYear_next[of "1970 + int n"] by (simp add: algebra_simps)
  with Suc DaysInYear_bounds(2)[of "1970 + int n"] show ?case by simp
qed

lemma DayFromYear_before: "DayFromYear (1970 - int n) \<le> - 365 * int n"
proof (induction n)
  case 0
  then show ?case by (simp add: DayFromYear_1970)
next
  case (Suc n)
  have "DayFromYear (1970 - int n) = DayFromYear (1970 - int (Suc n)) + DaysInYear (1970 - int (Suc n))"
    using DayFromYear_next[of "1970 - int (Suc n)"] by (simp add: algebra_simps)
  with Suc DaysInYear_bounds(1)[of "1970 - int (Suc n)"] show ?case by simp
qed

lemma year_estimate: "DayFromYear (1970 + (if 0 \<le> d then d div 366 else d div 365)) \<le> d"
proof (cases "0 \<le> d")
  case True
  then have "0 \<le> d div 366" by simp
  then have "DayFromYear (1970 + d div 366) \<le> 366 * (d div 366)"
    using DayFromYear_after[of "nat (d div 366)"] by simp
  also have "\<dots> \<le> d"
    using mult_div_mod_eq[of 366 d] pos_mod_sign[of 366 d] by linarith
  finally show ?thesis using True by simp
next
  case False
  then have "d div 365 \<le> 0"
    using zdiv_mono1[of d 0 365] by simp
  then have "DayFromYear (1970 + d div 365) \<le> 365 * (d div 365)"
    using DayFromYear_before[of "nat (- (d div 365))"] by simp
  also have "\<dots> \<le> d"
    using mult_div_mod_eq[of 365 d] pos_mod_sign[of 365 d] by linarith
  finally show ?thesis using False by simp
qed

lemma YearFromDay_bounds:
  "DayFromYear (YearFromDay d) \<le> d" "d < DayFromYear (YearFromDay d + 1)"
  using year_search_bounds[OF year_estimate[of d]] by (simp_all add: YearFromDay_def)


lemma DayWithinYear_bounds:
  "0 \<le> DayWithinYear t" "DayWithinYear t < DaysInYear (YearFromTime t)"
  using YearFromDay_bounds[of "Day t"] DayFromYear_next[of "YearFromTime t"]
  by (simp_all add: DayWithinYear_def YearFromTime_def)






lemma month_of_day_bounds:
  assumes "0 \<le> dwy" "dwy < 365 + leap" "leap = 0 \<or> leap = 1"
  shows "month_start (month_of_day dwy leap) leap \<le> dwy"
    and "dwy < month_start (month_of_day dwy leap) leap + month_days (month_of_day dwy leap) leap"
proof -
  have "month_start (month_of_day dwy leap) leap \<le> dwy
    \<and> dwy < month_start (month_of_day dwy leap) leap + month_days (month_of_day dwy leap) leap"
    using assms unfolding month_of_day_def
    by (elim disjE; simp add: month_start_def month_days_def)
  then show "month_start (month_of_day dwy leap) leap \<le> dwy"
    and "dwy < month_start (month_of_day dwy leap) leap + month_days (month_of_day dwy leap) leap"
    by simp_all
qed



lemma TimeWithinDay_MakeDate:
  "0 \<le> tod \<Longrightarrow> tod < msPerDay \<Longrightarrow> TimeWithinDay (MakeDate d tod) = tod"
  by (simp add: TimeWithinDay_def MakeDate_def msPerDay_def mod_pos_pos_trivial)



lemma InLeapYear_leap_of: "InLeapYear t = leap_of (YearFromTime t)"
  by (simp add: InLeapYear_def leap_of_def)








section \<open>The calendar grid\<close>





section \<open>Month navigation\<close>

text \<open>
  C7 fails on the last days of a month. With \<open>currentDate\<close> on Saturday 31 October 2026,
  noon, \<open>navigateMonth(1)\<close> sets the month to November and keeps the day, 31; November has
  30 days, and the date becomes 1 December: the page shows December, and November is
  skipped. From 15 December 2026 the next month is January 2027, and from 15 January 2026
  the previous month is December 2025, as the claim says.
\<close>

theorem navigateMonth_skips_november:
  "toDateString (Some 1793448000000) = ''Sat Oct 31 2026''
   \<and> getMonth (Some 1793448000000) = Some 9
   \<and> toDateString (navigateMonth (Some 1793448000000) 1) = ''Tue Dec 01 2026''
   \<and> getMonth (navigateMonth (Some 1793448000000) 1) = Some 11
   \<and> toDateString (Some 1797336000000) = ''Tue Dec 15 2026''
   \<and> toDateString (navigateMonth (Some 1797336000000) 1) = ''Fri Jan 15 2027''
   \<and> toDateString (Some 1768478400000) = ''Thu Jan 15 2026''
   \<and> toDateString (navigateMonth (Some 1768478400000) (- 1)) = ''Mon Dec 15 2025''"
proof -
  have "toDateString (Some 1793448000000) = ''Sat Oct 31 2026''"
    by code_simp
  moreover have "getMonth (Some 1793448000000) = Some 9"
    by code_simp
  moreover have "toDateString (navigateMonth (Some 1793448000000) 1) = ''Tue Dec 01 2026''"
    by code_simp
  moreover have "getMonth (navigateMonth (Some 1793448000000) 1) = Some 11"
    by code_simp
  moreover have "toDateString (Some 1797336000000) = ''Tue Dec 15 2026''"
    by code_simp
  moreover have "toDateString (navigateMonth (Some 1797336000000) 1) = ''Fri Jan 15 2027''"
    by code_simp
  moreover have "toDateString (Some 1768478400000) = ''Thu Jan 15 2026''"
    by code_simp
  moreover have "toDateString (navigateMonth (Some 1768478400000) (- 1)) = ''Mon Dec 15 2025''"
    by code_simp
  ultimately show ?thesis by simp
qed

end
